theory Spec2Isabelle
  imports Main "HOL-Library.Log_Nat"
begin

section \<open>Shared data: messages, users, HTTP exchanges\<close>

text \<open>
  The repository holds two generations of the same front end: the tab-based application
  (the unnamed source file, a single \<open>App\<close> component with a creator tab and a
  voter tab) and the session-based application (\<open>my-voting-app/src/App.jsx\<close>, with
  login, dashboards and analytics). Both are React components: every handler reads the
  state of the render that created it and issues absolute \<open>setX(v)\<close> updates, so a
  handler is a function from the state (and the answers of the network) to the state
  after its last update, together with the requests it sent, in order.
\<close>

text \<open>
  The \<open>{ text, isError }\<close> slot. The text is \<open>None\<close> where the JavaScript
  value is \<open>undefined\<close> (a server answer without the field that is copied into it).
\<close>

record msg =
  text' :: "string option"
  isError :: bool

definition no_message :: msg where
  "no_message = \<lparr>text' = Some [], isError = False\<rparr>"

definition error_message :: "string \<Rightarrow> msg" where
  "error_message m = \<lparr>text' = Some m, isError = True\<rparr>"

text \<open>
  The session object \<open>{ username, role }\<close>. The role is whatever string the server
  sent; an object without a role behaves, in every comparison of the code, like one whose
  role is neither \<open>creator\<close> nor \<open>voter\<close>.
\<close>

record session =
  username :: string
  role :: string

text \<open>
  A JSON value where a session is expected: \<open>null\<close>, or an object. The two are told
  apart because reading \<open>.role\<close> of \<open>null\<close> throws.
\<close>

datatype parsed = JNull | JObject session

text \<open>
  The message of the \<open>TypeError\<close> for reading a property of \<open>undefined\<close> or
  \<open>null\<close>, as V8 words it.
\<close>

definition cannot_read :: "string \<Rightarrow> string \<Rightarrow> string" where
  "cannot_read v property =
     ''Cannot read properties of '' @ v @ '' (reading '' @ [CHR 0x27] @ property @ [CHR 0x27] @ '')''"

text \<open>
  A JSON object of the backend, with the keys the front end reads. \<open>error\<close>,
  \<open>message\<close>, \<open>poll_id\<close>, \<open>creator_id\<close>, \<open>results\<close> and \<open>user\<close> (here
  \<open>user_key\<close>) are \<open>None\<close> when the key is missing (\<open>undefined\<close>) and strings,
  or the object they should be, otherwise; \<open>user\<close> may also be \<open>null\<close>;
  \<open>total_votes\<close>, \<open>total_voters\<close> and the votes of \<open>results\<close> are the
  integers written in the JSON text; \<open>is_active\<close> is the truthiness
  of the key; \<open>start_time\<close> and \<open>end_time\<close> are the time values, in milliseconds, of
  \<open>new Date(...)\<close> applied to the key, \<open>None\<close> for an invalid date (\<open>NaN\<close>).
  \<open>results\<close> keeps the insertion order of the object, as \<open>Object.entries\<close> does.
\<close>

record data =
  error :: "string option"
  message :: "string option"
  poll_id :: "string option"
  creator_id :: "string option"
  question :: string
  options :: "string list"
  results :: "(string \<times> nat) list option"
  total_votes :: nat
  total_voters :: nat
  is_active :: bool
  start_time :: "int option"
  end_time :: "int option"
  user_key :: "parsed option"

subsection \<open>Truthiness and \<open>new Error\<close>\<close>

text \<open>
  A string is truthy when it is not empty, \<open>undefined\<close> never is; \<open>a || b\<close> is
  \<open>a\<close> when \<open>a\<close> is truthy and \<open>b\<close> otherwise; the message of
  \<open>new Error(undefined)\<close> is the empty string.
\<close>

definition truthy :: "string option \<Rightarrow> bool" where
  "truthy v = (case v of None \<Rightarrow> False | Some s \<Rightarrow> s \<noteq> [])"

definition js_or :: "string option \<Rightarrow> string option \<Rightarrow> string option" where
  "js_or a b = (if truthy a then a else b)"

definition Error_message :: "string option \<Rightarrow> string" where
  "Error_message v = (case v of None \<Rightarrow> [] | Some s \<Rightarrow> s)"

subsection \<open>Decimal numerals\<close>

text \<open>A number in a template literal: the decimal digits of a natural number.\<close>

definition digit_char :: "nat \<Rightarrow> char" where
  "digit_char d =
     (if d = 0 then CHR ''0'' else if d = 1 then CHR ''1'' else if d = 2 then CHR ''2''
      else if d = 3 then CHR ''3'' else if d = 4 then CHR ''4'' else if d = 5 then CHR ''5''
      else if d = 6 then CHR ''6'' else if d = 7 then CHR ''7'' else if d = 8 then CHR ''8''
      else CHR ''9'')"

fun show_nat :: "nat \<Rightarrow> string" where
  "show_nat n = (if n < 10 then [digit_char n] else show_nat (n div 10) @ [digit_char (n mod 10)])"

declare show_nat.simps [simp del]

subsection \<open>Requests and responses\<close>

text \<open>
  A request carries its method, its URL, its \<open>Content-Type\<close> header when the code sets
  one, and its body as a list of named parts: the keys of the stringified JSON object,
  or the entries appended to the \<open>FormData\<close>. \<open>JSON.stringify\<close> leaves out a key
  whose value is \<open>undefined\<close>.
\<close>

datatype part = Text string | File string

record request =
  verb :: string
  url :: string
  content_type :: "string option"
  parts :: "(string \<times> part) list"

definition API_URL :: string where
  "API_URL = ''http://127.0.0.1:5000''"

fun json_parts :: "(string \<times> string option) list \<Rightarrow> (string \<times> part) list" where
  "json_parts [] = []"
| "json_parts ((k, None) # kvs) = json_parts kvs"
| "json_parts ((k, Some v) # kvs) = (k, Text v) # json_parts kvs"

definition get_request :: "string \<Rightarrow> request" where
  "get_request path = \<lparr>verb = ''GET'', url = API_URL @ path, content_type = None, parts = []\<rparr>"

definition post_json :: "string \<Rightarrow> (string \<times> string option) list \<Rightarrow> request" where
  "post_json path kvs =
     \<lparr>verb = ''POST'', url = API_URL @ path, content_type = Some ''application/json'',
      parts = json_parts kvs\<rparr>"

text \<open>
  What \<open>fetch\<close> and \<open>res.json()\<close> give back: the \<open>fetch\<close> promise rejects
  (transport failure, with the error's message), or a response arrives with its HTTP
  status and \<open>res.json()\<close> either rejects (the body is not JSON) or yields the payload.
  \<open>res.ok\<close> is the status being in 200..299.
\<close>

datatype 'a response = Rejected string | Responded nat "string + 'a"

definition ok :: "nat \<Rightarrow> bool" where
  "ok st = (200 \<le> st \<and> st \<le> 299)"

type_synonym network = "request \<Rightarrow> data response"

text \<open>
  The idiom of every guarded handler,
  \<^verbatim>\<open>res = await fetch(..); data = await res.json(); if (!res.ok) throw new Error(E)\<close>,
  inside its \<open>try\<close>: \<open>Inl\<close> is the message of the error that reaches the
  \<open>catch\<close>, \<open>Inr\<close> the payload of a successful answer. \<open>failure\<close> is the
  expression \<open>E\<close>, which may read the status and the payload.
\<close>

definition exchange :: "network \<Rightarrow> request \<Rightarrow> (nat \<Rightarrow> data \<Rightarrow> string option) \<Rightarrow> string + data" where
  "exchange net req failure =
     (case net req of
        Rejected m \<Rightarrow> Inl m
      | Responded st (Inl m) \<Rightarrow> Inl m
      | Responded st (Inr d) \<Rightarrow> if ok st then Inr d else Inl (Error_message (failure st d)))"

text \<open>
  What an unguarded piece of code leaves behind: its result, or an exception nobody
  caught (an unhandled rejection, for an \<open>async\<close> function), with its message and
  what had been done when it was thrown.
\<close>

datatype 'a outcome = Done 'a | Uncaught string 'a

fun done_by :: "'a outcome \<Rightarrow> 'a" where
  "done_by (Done x) = x"
| "done_by (Uncaught m x) = x"

section \<open>The session-based application: top-level component\<close>

text \<open>
  \<open>page\<close>, \<open>user\<close> and \<open>activePollId\<close> are the three \<open>useState\<close> cells of
  \<open>App\<close>; \<open>storage\<close> is the \<open>user\<close> slot of \<open>localStorage\<close>
  (\<open>None\<close> when \<open>getItem\<close> returns \<open>null\<close>).
\<close>

record app_state =
  page :: string
  user :: "session option"
  activePollId :: "string option"
  storage :: "string option"

definition initial_app :: "string option \<Rightarrow> app_state" where
  "initial_app slot = \<lparr>page = ''home'', user = None, activePollId = None, storage = slot\<rparr>"

text \<open>
  \<open>JSON.parse\<close> is the browser's: it is a parameter of the model. It either throws a
  \<open>SyntaxError\<close> (\<open>Inl\<close>, with the error's message) or yields a value.
\<close>

type_synonym json_parse = "string \<Rightarrow> string + parsed"

definition dashboard_of :: "string \<Rightarrow> string" where
  "dashboard_of r = (if r = ''creator'' then ''creatorDashboard'' else ''voterDashboard'')"

text \<open>
  The start-up effect. A stored string is used only when truthy (not \<open>null\<close>, not
  empty); nothing surrounds \<open>JSON.parse\<close> or the read of \<open>parsedUser.role\<close>, so
  what they throw leaves the effect.
\<close>

definition restore :: "json_parse \<Rightarrow> app_state \<Rightarrow> app_state outcome" where
  "restore parse s =
     (case storage s of
        None \<Rightarrow> Done s
      | Some storedUser \<Rightarrow>
          if storedUser = [] then Done s
          else (case parse storedUser of
                  Inl syntax_error \<Rightarrow> Uncaught syntax_error s
                | Inr JNull \<Rightarrow> Uncaught (cannot_read ''null'' ''role'') (s\<lparr>user := None\<rparr>)
                | Inr (JObject parsedUser) \<Rightarrow>
                    Done (s\<lparr>user := Some parsedUser, page := dashboard_of (role parsedUser)\<rparr>)))"

definition handleLogout :: "app_state \<Rightarrow> app_state" where
  "handleLogout s = s\<lparr>storage := None, user := None, page := ''home''\<rparr>"

definition navigateTo :: "string \<Rightarrow> string option \<Rightarrow> app_state \<Rightarrow> app_state" where
  "navigateTo newPage pollId s = s\<lparr>activePollId := pollId, page := newPage\<rparr>"

datatype screen =
    CreatorDashboard session
  | CreatePollForm session
  | PollAnalyticsDashboard "string option"
  | VoterDashboard session
  | AuthPage bool
  | HomePage

text \<open>\<open>renderPage\<close>: the role is looked at first, the page second.\<close>

definition renderPage :: "app_state \<Rightarrow> screen" where
  "renderPage s =
     (case user s of
        Some u \<Rightarrow>
          if role u = ''creator'' then
            (if page s = ''creatorDashboard'' then CreatorDashboard u
             else if page s = ''createPoll'' then CreatePollForm u
             else if page s = ''analytics'' then PollAnalyticsDashboard (activePollId s)
             else CreatorDashboard u)
          else if role u = ''voter'' then VoterDashboard u
          else (if page s = ''login'' then AuthPage False
                else if page s = ''signup'' then AuthPage True
                else HomePage)
      | None \<Rightarrow>
          (if page s = ''login'' then AuthPage False
           else if page s = ''signup'' then AuthPage True
           else HomePage))"

text \<open>A run of navigation requests, oldest first.\<close>

fun navigations :: "(string \<times> string option) list \<Rightarrow> app_state \<Rightarrow> app_state" where
  "navigations [] s = s"
| "navigations ((newPage, pollId) # rest) s = navigations rest (navigateTo newPage pollId s)"

section \<open>Creator dashboard: the status badge\<close>

text \<open>\<open>now > end\<close> on dates compares time values; any comparison with \<open>NaN\<close> is false.\<close>

definition date_gt :: "int \<Rightarrow> int option \<Rightarrow> bool" where
  "date_gt now e = (case e of None \<Rightarrow> False | Some t \<Rightarrow> t < now)"

record status =
  status_text :: string
  color :: string

definition getStatus :: "int \<Rightarrow> data \<Rightarrow> status" where
  "getStatus now p =
     (if \<not> is_active p then \<lparr>status_text = ''Closed'', color = ''red''\<rparr>
      else if date_gt now (end_time p) then \<lparr>status_text = ''Ended'', color = ''gray''\<rparr>
      else \<lparr>status_text = ''Active'', color = ''green''\<rparr>)"

section \<open>The session-based application: screens\<close>


subsection \<open>AuthPage\<close>

record auth_state =
  username_auth :: string
  password :: string
  role_auth :: string
  message_auth :: msg

text \<open>
  \<open>onLoginSuccess\<close> of the top-level component. \<open>JSON.stringify\<close> is the
  browser's and a parameter for objects; of \<open>undefined\<close> it is \<open>undefined\<close>,
  which \<open>setItem\<close> stores as the text \<open>undefined\<close>, and of \<open>null\<close> it is
  the text \<open>null\<close>. Reading \<open>.role\<close> of a missing or null user throws after the
  slot and the user cell have been written: the second component is the message of that
  error.
\<close>

definition onLoginSuccess ::
    "(session \<Rightarrow> string) \<Rightarrow> parsed option \<Rightarrow> app_state \<Rightarrow> app_state \<times> string option" where
  "onLoginSuccess stringify loggedInUser s =
     (case loggedInUser of
        None \<Rightarrow>
          (s\<lparr>storage := Some ''undefined'', user := None\<rparr>,
           Some (cannot_read ''undefined'' ''role''))
      | Some JNull \<Rightarrow>
          (s\<lparr>storage := Some ''null'', user := None\<rparr>,
           Some (cannot_read ''null'' ''role''))
      | Some (JObject u) \<Rightarrow>
          (s\<lparr>storage := Some (stringify u), user := Some u, page := dashboard_of (role u)\<rparr>,
           None))"

definition submit_failure :: "nat \<Rightarrow> data \<Rightarrow> string option" where
  "submit_failure st d = js_or (error d) (Some (''HTTP error! status: '' @ show_nat st))"

definition submit_request :: "bool \<Rightarrow> auth_state \<Rightarrow> request" where
  "submit_request isSignup a =
     (if isSignup
      then post_json ''/signup''
             [(''username'', Some (username_auth a)), (''password'', Some (password a)),
              (''role'', Some (role_auth a))]
      else post_json ''/login''
             [(''username'', Some (username_auth a)), (''password'', Some (password a))])"

definition handleSubmit ::
    "(session \<Rightarrow> string) \<Rightarrow> network \<Rightarrow> bool \<Rightarrow> auth_state \<times> app_state
       \<Rightarrow> (auth_state \<times> app_state) \<times> request list" where
  "handleSubmit stringify net isSignup st =
     (case st of (a, s) \<Rightarrow>
        let req = submit_request isSignup a
        in case exchange net req submit_failure of
             Inl m \<Rightarrow> ((a\<lparr>message_auth := error_message m\<rparr>, s), [req])
           | Inr d \<Rightarrow>
               if isSignup
               then ((a\<lparr>message_auth := \<lparr>text' = Some ''Signup successful! Please log in.'',
                                          isError = False\<rparr>\<rparr>,
                      navigateTo ''login'' None s), [req])
               else (case onLoginSuccess stringify (user_key d) s of
                       (s', None) \<Rightarrow> ((a, s'), [req])
                     | (s', Some m) \<Rightarrow> ((a\<lparr>message_auth := error_message m\<rparr>, s'), [req])))"

subsection \<open>CreatorDashboard\<close>

text \<open>
  The answer of \<open>/my_polls\<close> is an array of polls when all goes well; \<open>fetchPolls\<close>
  stores whatever JSON arrived.
\<close>

datatype polls_payload = PollArray "data list" | PollObject data

record creator_state =
  polls :: polls_payload
  copiedPollId :: "string option"

text \<open>
  \<open>fetchPolls\<close> has no \<open>try\<close> and does not look at \<open>response.ok\<close>; it is
  called without \<open>await\<close> or \<open>catch\<close>, so a rejection inside it is a rejection
  nobody handles.
\<close>

definition polls_request :: "session \<Rightarrow> request" where
  "polls_request u = get_request (''/my_polls/'' @ username u)"

definition fetchPolls ::
    "(request \<Rightarrow> polls_payload response) \<Rightarrow> session \<Rightarrow> creator_state
       \<Rightarrow> (creator_state \<times> request list) outcome" where
  "fetchPolls net u s =
     (let req = polls_request u
      in case net req of
           Rejected m \<Rightarrow> Uncaught m (s, [req])
         | Responded st (Inl m) \<Rightarrow> Uncaught m (s, [req])
         | Responded st (Inr d) \<Rightarrow> Done (s\<lparr>polls := d\<rparr>, [req]))"

text \<open>The list that is rendered: \<open>polls.length > 0\<close> is false for an object.\<close>

definition polls_listed :: "creator_state \<Rightarrow> data list" where
  "polls_listed s = (case polls s of PollArray ps \<Rightarrow> ps | PollObject d \<Rightarrow> [])"

subsection \<open>CreatePollForm\<close>






subsection \<open>PollAnalyticsDashboard\<close>

record analytics_state =
  analytics :: "data option"
  isLoading :: bool

definition analytics_request :: "string option \<Rightarrow> request" where
  "analytics_request pollId =
     get_request (''/analytics/'' @ (case pollId of None \<Rightarrow> ''null'' | Some p \<Rightarrow> p))"

text \<open>\<open>fetchAnalytics\<close>, inside its effect: no \<open>try\<close>, no look at \<open>response.ok\<close>.\<close>

definition fetchAnalytics ::
    "network \<Rightarrow> string option \<Rightarrow> analytics_state \<Rightarrow> (analytics_state \<times> request list) outcome" where
  "fetchAnalytics net pollId s0 =
     (let s = s0\<lparr>isLoading := True\<rparr>;
          req = analytics_request pollId
      in case net req of
           Rejected m \<Rightarrow> Uncaught m (s, [req])
         | Responded st (Inl m) \<Rightarrow> Uncaught m (s, [req])
         | Responded st (Inr d) \<Rightarrow> Done (s\<lparr>analytics := Some d, isLoading := False\<rparr>, [req]))"

text \<open>
  What the dashboard renders: the two charts take their labels and their data from the
  same \<open>results\<close> object, and \<open>Object.keys\<close> of a missing one throws while
  rendering, so that nothing (\<open>Blank\<close>) is rendered.
\<close>

datatype analytics_view = Blank | Loading | CouldNotLoad | Charts "string list" "nat list"

definition render_analytics :: "analytics_state \<Rightarrow> analytics_view outcome" where
  "render_analytics s =
     (if isLoading s then Done Loading
      else case analytics s of
             None \<Rightarrow> Done CouldNotLoad
           | Some a \<Rightarrow>
               (case results a of
                  None \<Rightarrow> Uncaught ''TypeError: Cannot convert undefined or null to object'' Blank
                | Some r \<Rightarrow> Done (Charts (map fst r) (map snd r))))"

subsection \<open>VoterDashboard\<close>

record voter_state =
  pollId :: string
  aadhar :: string
  pollData :: "data option"
  selectedOption :: string
  message_voter :: msg

definition status_request :: "voter_state \<Rightarrow> request" where
  "status_request s = get_request (''/poll_status/'' @ pollId s)"

definition handleFetchPoll :: "network \<Rightarrow> voter_state \<Rightarrow> voter_state \<times> request list" where
  "handleFetchPoll net s0 =
     (let s = s0\<lparr>message_voter := no_message, pollData := None\<rparr>;
          req = status_request s0
      in case exchange net req (\<lambda>st d. error d) of
           Inl m \<Rightarrow> (s\<lparr>message_voter := error_message m\<rparr>, [req])
         | Inr d \<Rightarrow> (s\<lparr>pollData := Some d\<rparr>, [req]))"

definition vote_request :: "voter_state \<Rightarrow> request" where
  "vote_request s =
     post_json ''/vote''
       [(''poll_id'', Some (pollId s)), (''aadhar'', Some (aadhar s)),
        (''selection'', Some (selectedOption s))]"

definition handleVote :: "network \<Rightarrow> voter_state \<Rightarrow> voter_state \<times> request list" where
  "handleVote net s =
     (let req = vote_request s
      in case exchange net req (\<lambda>st d. error d) of
           Inl m \<Rightarrow> (s\<lparr>message_voter := error_message m\<rparr>, [req])
         | Inr d \<Rightarrow>
             (s\<lparr>message_voter := \<lparr>text' = message d, isError = False\<rparr>, pollData := None,
                pollId := [], aadhar := []\<rparr>, [req]))"

text \<open>
  The dashboard shows the search form without poll data; with poll data, the voting
  form when the poll is active and the notice that it is not open otherwise.
\<close>

definition voting_form_shown :: "voter_state \<Rightarrow> bool" where
  "voting_form_shown s = (case pollData s of None \<Rightarrow> False | Some d \<Rightarrow> is_active d)"

definition inactive_notice_shown :: "voter_state \<Rightarrow> bool" where
  "inactive_notice_shown s = (case pollData s of None \<Rightarrow> False | Some d \<Rightarrow> \<not> is_active d)"

section \<open>Numbers\<close>

text \<open>
  A JavaScript number is an IEEE 754 double: a finite value, which is a rational
  number, an infinity, or \<open>NaN\<close>. The quantities here are counts and what is computed
  from them, so that only non-negative values occur, and \<open>Infinity\<close> is the positive
  one.
\<close>

datatype number = Finite rat | Infinity | NaN

text \<open>
  The result of an arithmetic operation is its exact result rounded to the nearest
  double, a tie going to the even significand. \<open>double x\<close> is that rounding, for
  \<open>x \<ge> 0\<close>: \<open>exponent x\<close> is the \<open>e\<close> with \<open>2^e \<le> x < 2^(e+1)\<close>; the
  significand has 53 bits, and fewer below \<open>2^-1022\<close>, where the spacing of the
  doubles stays \<open>2^-1074\<close>; a result that reaches \<open>2^1024\<close> is the infinity.
\<close>

definition round_even :: "rat \<Rightarrow> int" where
  "round_even z =
     (let f = \<lfloor>z\<rfloor>; d = z - of_int f
      in if d < 1 / 2 then f else if 1 / 2 < d then f + 1 else if even f then f else f + 1)"

definition exponent :: "rat \<Rightarrow> int" where
  "exponent x =
     (case quotient_of x of (p, q) \<Rightarrow>
        let k = bitlen p - bitlen q in if 2 powi k \<le> x then k else k - 1)"

definition double :: "rat \<Rightarrow> number" where
  "double x =
     (if x = 0 then Finite 0
      else let e = max (exponent \<bar>x\<bar>) (- 1022) - 52;
               r = of_int (round_even (x / 2 powi e)) * 2 powi e
           in if 1024 \<le> exponent \<bar>r\<bar> then Infinity else Finite r)"

text \<open>
  A count written in the JSON text of an answer arrives as the double nearest to it;
  counts below \<open>2^53\<close> arrive as they are.
\<close>

definition number_of_nat :: "nat \<Rightarrow> number" where
  "number_of_nat n = double (of_nat n)"

text \<open>Division, multiplication and the test \<open>x > 0\<close>, on non-negative numbers.\<close>

fun divide_number :: "number \<Rightarrow> number \<Rightarrow> number" where
  "divide_number (Finite a) (Finite b) =
     (if b = 0 then (if a = 0 then NaN else Infinity) else double (a / b))"
| "divide_number (Finite a) Infinity = Finite 0"
| "divide_number Infinity (Finite b) = Infinity"
| "divide_number Infinity Infinity = NaN"
| "divide_number NaN y = NaN"
| "divide_number x NaN = NaN"

fun times_number :: "number \<Rightarrow> number \<Rightarrow> number" where
  "times_number (Finite a) (Finite b) = double (a * b)"
| "times_number (Finite a) Infinity = (if a = 0 then NaN else Infinity)"
| "times_number Infinity (Finite b) = (if b = 0 then NaN else Infinity)"
| "times_number Infinity Infinity = Infinity"
| "times_number NaN y = NaN"
| "times_number x NaN = NaN"

fun positive :: "number \<Rightarrow> bool" where
  "positive (Finite a) = (0 < a)"
| "positive Infinity = True"
| "positive NaN = False"

text \<open>
  \<open>x.toFixed(1)\<close> for a finite \<open>0 \<le> x < 10^21\<close>: with \<open>n\<close> the integer for
  which \<open>n / 10 - x\<close> is closest to zero, the larger one if there are two, the digits
  of \<open>n\<close> with a point before the last one. \<open>tenths\<close> is that \<open>n\<close>.
\<close>

definition tenths :: "rat \<Rightarrow> nat" where
  "tenths x = nat \<lfloor>10 * x + 1 / 2\<rfloor>"

definition fixed1 :: "nat \<Rightarrow> string" where
  "fixed1 n = show_nat (n div 10) @ ''.'' @ show_nat (n mod 10)"

text \<open>
  From \<open>10^21\<close> on, \<open>toFixed\<close> gives what \<open>String(x)\<close> gives, the exponent
  notation: the digits of the shortest decimal numeral that still denotes \<open>x\<close> (of
  several of that length the nearest to \<open>x\<close>, and of two equally near the one with
  the even last digit), a point after the first digit, and the exponent. A double of
  that size is an integer. \<open>shortest x X nd ks\<close> tries the numbers of digits \<open>ks\<close>
  in turn, for the integer \<open>X\<close> of \<open>nd\<close> digits, and yields the value of the
  numeral found: \<open>X\<close> cut after \<open>k\<close> digits, or the next such number above.
\<close>

function digits_of :: "int \<Rightarrow> string" where
  "digits_of i =
     (if i < 10 then [digit_char (nat i)]
      else digits_of (i div 10) @ [digit_char (nat (i mod 10))])"
  by auto
termination
  by (relation "measure nat") auto

declare digits_of.simps [simp del]

fun shortest :: "rat \<Rightarrow> int \<Rightarrow> nat \<Rightarrow> nat list \<Rightarrow> int" where
  "shortest x X nd [] = X"
| "shortest x X nd (k # ks) =
     (let scale = 10 ^ (nd - k);
          lo = (X div scale) * scale;
          hi = lo + scale;
          lo_ok = (double (of_int lo) = Finite x);
          hi_ok = (double (of_int hi) = Finite x)
      in if lo_ok \<and> hi_ok
         then (if X - lo < hi - X then lo else if hi - X < X - lo then hi
               else if even (X div scale) then lo else hi)
         else if lo_ok then lo
         else if hi_ok then hi
         else shortest x X nd ks)"

fun strip_zeros :: "string \<Rightarrow> string" where
  "strip_zeros [] = []"
| "strip_zeros (c # cs) = (if c = CHR ''0'' then strip_zeros cs else c # cs)"

definition exponent_notation :: "rat \<Rightarrow> string" where
  "exponent_notation x =
     (let X = \<lfloor>x\<rfloor>;
          nd = length (digits_of X);
          c = digits_of (shortest x X nd [1..<nd]);
          s = rev (strip_zeros (rev c))
      in (if length s = 1 then s else [hd s] @ ''.'' @ tl s) @ ''e+'' @ show_nat (length c - 1))"

fun toFixed1 :: "number \<Rightarrow> string" where
  "toFixed1 NaN = ''NaN''"
| "toFixed1 Infinity = ''Infinity''"
| "toFixed1 (Finite x) = (if 10 ^ 21 \<le> x then exponent_notation x else fixed1 (tenths x))"

section \<open>The tab-based application\<close>

text \<open>
  The state cells of the single \<open>App\<close> component of the tab-based application.
  \<open>managePollId\<close> and \<open>creatorId\<close> are \<open>None\<close> after a creation whose answer
  lacked the key.
\<close>

record tab_state =
  view :: string
  message_tab :: msg
  question_tab :: string
  options_tab :: string
  voters :: string
  creatorInfo :: "data option"
  managePollId :: "string option"
  creatorId :: "string option"
  creatorResults :: "data option"
  voterPollId :: string
  voterId :: string
  pollData_tab :: "data option"
  voterResults :: "data option"
  selectedOption_tab :: string

definition clearMessages :: "tab_state \<Rightarrow> tab_state" where
  "clearMessages s =
     s\<lparr>message_tab := no_message, creatorInfo := None, creatorResults := None,
       voterResults := None, pollData_tab := None\<rparr>"

definition handleSetView :: "string \<Rightarrow> tab_state \<Rightarrow> tab_state" where
  "handleSetView newView s = (clearMessages s)\<lparr>view := newView\<rparr>"

text \<open>The radio buttons of the voting card are the only writers of the selection.\<close>

definition setSelectedOption_tab :: "string \<Rightarrow> tab_state \<Rightarrow> tab_state" where
  "setSelectedOption_tab option s = s\<lparr>selectedOption_tab := option\<rparr>"

definition handleCreatePoll_tab :: "network \<Rightarrow> tab_state \<Rightarrow> tab_state \<times> request list" where
  "handleCreatePoll_tab net s0 =
     (let s = clearMessages s0;
          req = post_json ''/create_poll''
                  [(''question'', Some (question_tab s0)), (''options'', Some (options_tab s0)),
                   (''voters'', Some (voters s0))]
      in case exchange net req (\<lambda>st d. js_or (error d) (Some ''Failed to create poll.'')) of
           Inl m \<Rightarrow> (s\<lparr>message_tab := error_message m\<rparr>, [req])
         | Inr d \<Rightarrow>
             (s\<lparr>creatorInfo := Some d, managePollId := poll_id d, creatorId := creator_id d\<rparr>,
              [req]))"

text \<open>
  \<open>handleManageAction\<close>: the action tag picks the endpoint and what is done with a
  successful answer; the fallback text of a failure is the template
  \<^verbatim>\<open>`Failed to ${action} poll.`\<close>.
\<close>

definition manage_failure :: "string \<Rightarrow> nat \<Rightarrow> data \<Rightarrow> string option" where
  "manage_failure action st d =
     js_or (error d) (js_or (message d) (Some (''Failed to '' @ action @ '' poll.'')))"

definition handleManageAction :: "network \<Rightarrow> string \<Rightarrow> tab_state \<Rightarrow> tab_state \<times> request list" where
  "handleManageAction net action s0 =
     (let s = clearMessages s0;
          endpoint = (if action = ''end'' then ''/end_poll'' else ''/results'');
          req = post_json endpoint
                  [(''poll_id'', managePollId s0), (''creator_id'', creatorId s0)]
      in case exchange net req (manage_failure action) of
           Inl m \<Rightarrow> (s\<lparr>message_tab := error_message m\<rparr>, [req])
         | Inr d \<Rightarrow>
             if action = ''end''
             then (s\<lparr>message_tab := \<lparr>text' = message d, isError = False\<rparr>\<rparr>, [req])
             else (s\<lparr>creatorResults := Some d\<rparr>, [req]))"

text \<open>
  \<open>handleAccessPoll\<close>: the status of the poll is fetched; an active poll becomes the
  poll data; for any other the results are requested, and the notice set before that
  request stays when it succeeds.
\<close>

definition status_request_tab :: "tab_state \<Rightarrow> request" where
  "status_request_tab s = get_request (''/poll_status/'' @ voterPollId s)"

definition results_request_tab :: "tab_state \<Rightarrow> request" where
  "results_request_tab s = post_json ''/results'' [(''poll_id'', Some (voterPollId s))]"

definition handleAccessPoll :: "network \<Rightarrow> tab_state \<Rightarrow> tab_state \<times> request list" where
  "handleAccessPoll net s0 =
     (let s = clearMessages s0;
          req = status_request_tab s0
      in case exchange net req (\<lambda>st d. js_or (error d) (Some ''Could not fetch poll status.'')) of
           Inl m \<Rightarrow> (s\<lparr>message_tab := error_message m\<rparr>, [req])
         | Inr d \<Rightarrow>
             if is_active d then (s\<lparr>pollData_tab := Some d\<rparr>, [req])
             else
               (let notice = \<lparr>text' = Some ''This poll has ended. Fetching results...'',
                              isError = False\<rparr>;
                    resultsReq = results_request_tab s0
                in case exchange net resultsReq
                          (\<lambda>st d. js_or (error d) (Some ''Could not fetch results.'')) of
                     Inl m \<Rightarrow> (s\<lparr>message_tab := error_message m\<rparr>, [req, resultsReq])
                   | Inr resultsData \<Rightarrow>
                       (s\<lparr>message_tab := notice, voterResults := Some resultsData\<rparr>,
                        [req, resultsReq])))"

definition vote_request_tab :: "tab_state \<Rightarrow> request" where
  "vote_request_tab s =
     post_json ''/vote''
       [(''poll_id'', Some (voterPollId s)), (''voter_id'', Some (voterId s)),
        (''selection'', Some (selectedOption_tab s))]"

definition handleVote_tab :: "network \<Rightarrow> tab_state \<Rightarrow> tab_state \<times> request list" where
  "handleVote_tab net s0 =
     (let s = clearMessages s0
      in if selectedOption_tab s0 = []
         then (s\<lparr>message_tab := error_message ''Please select an option to vote.''\<rparr>, [])
         else
           (let req = vote_request_tab s0
            in case exchange net req (\<lambda>st d. js_or (error d) (Some ''Failed to cast vote.'')) of
                 Inl m \<Rightarrow> (s\<lparr>message_tab := error_message m\<rparr>, [req])
               | Inr d \<Rightarrow>
                   (s\<lparr>pollData_tab := None,
                      message_tab := \<lparr>text' = message d, isError = False\<rparr>\<rparr>, [req])))"

text \<open>
  \<open>ResultsDisplay\<close>: one row per entry of \<open>results\<close>, in the order of the object,
  with the option, its votes and the percentage that is printed before the percent sign
  and used as the width of the bar. The percentage is the string of \<open>toFixed(1)\<close>
  when \<open>total_votes > 0\<close>, and the number \<open>0\<close>, printed as \<open>0\<close>, otherwise.
  \<open>percent_number\<close> is \<open>(votes / total_votes) * 100\<close>: a division and a
  multiplication of numbers, each rounded. \<open>Object.entries\<close> of a missing
  \<open>results\<close> throws.
\<close>

definition percent_number :: "nat \<Rightarrow> nat \<Rightarrow> number" where
  "percent_number votes totalVotes =
     times_number (divide_number (number_of_nat votes) (number_of_nat totalVotes)) (Finite 100)"

definition percentage :: "nat \<Rightarrow> nat \<Rightarrow> string" where
  "percentage votes totalVotes =
     (if positive (number_of_nat totalVotes) then toFixed1 (percent_number votes totalVotes)
      else ''0'')"

definition ResultsDisplay :: "data \<Rightarrow> (string \<times> nat \<times> string) list outcome" where
  "ResultsDisplay resultsData =
     (case results resultsData of
        None \<Rightarrow> Uncaught ''TypeError: Cannot convert undefined or null to object'' []
      | Some entries \<Rightarrow>
          Done (map (\<lambda>(option, votes). (option, votes, percentage votes (total_votes resultsData)))
                  entries))"

text \<open>
  What the voter tab shows: the access form while there is neither poll data nor
  results, the voting card (options and the vote button) when there is poll data, and
  \<open>ResultsDisplay\<close> of the results when there are results (\<open>None\<close>: the component
  is not rendered).
\<close>

definition access_form_shown_tab :: "tab_state \<Rightarrow> bool" where
  "access_form_shown_tab s = (view s = ''voter'' \<and> pollData_tab s = None \<and> voterResults s = None)"

definition voting_form_shown_tab :: "tab_state \<Rightarrow> bool" where
  "voting_form_shown_tab s = (view s = ''voter'' \<and> pollData_tab s \<noteq> None)"

definition results_shown_tab :: "tab_state \<Rightarrow> (string \<times> nat \<times> string) list outcome option" where
  "results_shown_tab s =
     (if view s = ''voter'' then map_option ResultsDisplay (voterResults s) else None)"

section \<open>Concrete inputs\<close>

text \<open>A JSON object with none of the optional keys, to build answers from.\<close>

definition empty_data :: data where
  "empty_data =
     \<lparr>error = None, message = None, poll_id = None, creator_id = None, question = [],
      options = [], results = None, total_votes = 0, total_voters = 0, is_active = False,
      start_time = None, end_time = None, user_key = None\<rparr>"

definition closed_poll :: data where
  "closed_poll = empty_data\<lparr>question := ''Lunch?'', options := [''A'', ''B'']\<rparr>"

text \<open>The results \<open>{A: 1, B: 1}\<close> with two votes in total.\<close>

definition even_split :: data where
  "even_split = empty_data\<lparr>results := Some [(''A'', 1), (''B'', 1)], total_votes := 2\<rparr>"

text \<open>A poll that is open, with two options.\<close>

definition open_poll :: data where
  "open_poll = empty_data\<lparr>question := ''Lunch?'', options := [''A'', ''B''], is_active := True\<rparr>"

text \<open>
  A backend for a closed poll that has results: the status request (a \<open>GET\<close>) is
  answered with the closed poll, any other request with the results.
\<close>

definition closed_with_results_network :: network where
  "closed_with_results_network req =
     (if verb req = ''GET'' then Responded 200 (Inr closed_poll)
      else Responded 200 (Inr even_split))"

text \<open>A backend that answers every request with the closed poll.\<close>

definition closed_poll_network :: network where
  "closed_poll_network req = Responded 200 (Inr closed_poll)"

text \<open>
  A backend that knows the poll is closed and refuses the results: the status request
  (a \<open>GET\<close>) succeeds, any other request is answered 403 with an error.
\<close>

definition results_refused_network :: network where
  "results_refused_network req =
     (if verb req = ''GET'' then Responded 200 (Inr closed_poll)
      else Responded 403 (Inr (empty_data\<lparr>error := Some ''Not allowed''\<rparr>)))"

text \<open>A backend that refuses with a \<open>message\<close> key and no \<open>error\<close> key.\<close>

definition message_only_network :: network where
  "message_only_network req = Responded 409 (Inr (empty_data\<lparr>message := Some ''Username taken''\<rparr>))"

text \<open>A backend whose refusal carries an empty \<open>error\<close> and a \<open>message\<close>.\<close>

definition empty_error_network :: network where
  "empty_error_network req =
     Responded 400 (Inr (empty_data\<lparr>error := Some [], message := Some ''Poll not found''\<rparr>))"

text \<open>No network: every \<open>fetch\<close> rejects.\<close>

definition offline :: "request \<Rightarrow> 'a response" where
  "offline req = Rejected ''Failed to fetch''"

text \<open>A backend that answers every request 404 with an error object.\<close>

definition not_found_network :: network where
  "not_found_network req = Responded 404 (Inr (empty_data\<lparr>error := Some ''Poll not found''\<rparr>))"

definition not_found_polls :: "request \<Rightarrow> polls_payload response" where
  "not_found_polls req =
     Responded 404 (Inr (PollObject (empty_data\<lparr>error := Some ''User not found''\<rparr>)))"

text \<open>A backend that accepts everything and confirms with a message.\<close>

definition accepting_network :: network where
  "accepting_network req =
     Responded 200 (Inr (empty_data\<lparr>message := Some ''Vote cast successfully!'',
                                    poll_id := Some ''p1''\<rparr>))"

text \<open>
  A stand-in for \<open>JSON.parse\<close> that agrees with it on the text \<open>null\<close> and on
  texts that are not JSON, such as \<open>{bad\<close>; it is used on those only.
\<close>

definition sample_parse :: json_parse where
  "sample_parse s =
     (if s = ''null'' then Inr JNull else Inl ''SyntaxError: Unexpected token in JSON'')"

text \<open>
  \<open>JSON.stringify\<close> on a session whose two strings need no escaping.
\<close>

definition quoted :: "string \<Rightarrow> string" where
  "quoted str = [CHR 0x22] @ str @ [CHR 0x22]"

definition stringify_plain :: "session \<Rightarrow> string" where
  "stringify_plain u =
     ''{'' @ quoted ''username'' @ '':'' @ quoted (username u) @ '','' @
     quoted ''role'' @ '':'' @ quoted (role u) @ ''}''"

definition alice :: session where
  "alice = \<lparr>username = ''alice'', role = ''creator''\<rparr>"

definition tab_start :: tab_state where
  "tab_start =
     \<lparr>view = ''voter'', message_tab = no_message, question_tab = [], options_tab = [],
      voters = [], creatorInfo = None, managePollId = Some ''p1'', creatorId = Some ''c1'',
      creatorResults = None, voterPollId = ''p1'', voterId = ''v1'', pollData_tab = None,
      voterResults = None, selectedOption_tab = ''A''\<rparr>"

definition voter_start :: voter_state where
  "voter_start =
     \<lparr>pollId = ''p1'', aadhar = ''1234'', pollData = None, selectedOption = ''A'',
      message_voter = no_message\<rparr>"

text \<open>The two voter screens with the open poll fetched and option \<open>A\<close> chosen.\<close>

definition tab_voting :: tab_state where
  "tab_voting = tab_start\<lparr>pollData_tab := Some open_poll\<rparr>"

definition voter_voting :: voter_state where
  "voter_voting = voter_start\<lparr>pollData := Some open_poll\<rparr>"


definition auth_start :: auth_state where
  "auth_start =
     \<lparr>username_auth = ''alice'', password = ''x'', role_auth = ''creator'',
      message_auth = no_message\<rparr>"


section \<open>Theorems\<close>

lemma navigateTo_user: "user (navigateTo newPage pid s) = user s"
  by (simp add: navigateTo_def)

lemma navigations_user: "user (navigations navs s) = user s"
  by (induction navs arbitrary: s) (auto simp: navigateTo_user)

lemma renderPage_voter:
  "user s = Some u \<Longrightarrow> role u = ''voter'' \<Longrightarrow> renderPage s = VoterDashboard u"
  by (simp add: renderPage_def)

text \<open>
  C9. While a user whose role is \<open>voter\<close> is logged in, the screen is the voter
  dashboard: whatever the page is, and after any run of navigation requests, with any
  view names and poll ids.
\<close>

theorem voter_screen_fixed:
  assumes "user s = Some u" and "role u = ''voter''"
  shows "renderPage s = VoterDashboard u
       \<and> renderPage (navigateTo newPage pid s) = VoterDashboard u
       \<and> renderPage (navigations navs s) = VoterDashboard u"
  using assms by (simp add: renderPage_voter navigateTo_user navigations_user)

theorem voter_screen_fixed_witness:
  "renderPage (navigateTo ''analytics'' (Some ''p1'')
       \<lparr>page = ''voterDashboard'', user = Some \<lparr>username = ''bob'', role = ''voter''\<rparr>,
        activePollId = None, storage = None\<rparr>)
     = VoterDashboard \<lparr>username = ''bob'', role = ''voter''\<rparr>
   \<and> renderPage (navigations [(''createPoll'', None), (''login'', None)]
       \<lparr>page = ''voterDashboard'', user = Some \<lparr>username = ''bob'', role = ''voter''\<rparr>,
        activePollId = None, storage = None\<rparr>)
     = VoterDashboard \<lparr>username = ''bob'', role = ''voter''\<rparr>"
  using voter_screen_fixed [of
      "\<lparr>page = ''voterDashboard'', user = Some \<lparr>username = ''bob'', role = ''voter''\<rparr>,
        activePollId = None, storage = None\<rparr>"
      "\<lparr>username = ''bob'', role = ''voter''\<rparr>"
      "''analytics''" "Some ''p1''" "[(''createPoll'', None), (''login'', None)]"]
  by simp

text \<open>
  C5. The status of a poll is decided by \<open>is_active\<close> first and the clock second:
  \<open>Closed\<close> exactly when the poll is not active, whatever the time; \<open>Ended\<close> exactly
  when it is active and its end time is a date before the current time; \<open>Active\<close> in
  every other case, that is when it is active and its end time is no date or a date not
  before the current time.
\<close>

theorem getStatus_precedence:
  "(status_text (getStatus now p) = ''Closed'') = (\<not> is_active p)
   \<and> (status_text (getStatus now p) = ''Ended'')
       = (is_active p \<and> (\<exists>t. end_time p = Some t \<and> t < now))
   \<and> (status_text (getStatus now p) = ''Active'')
       = (is_active p \<and> (end_time p = None \<or> (\<exists>t. end_time p = Some t \<and> now \<le> t)))"
  by (cases "end_time p") (auto simp: getStatus_def date_gt_def)

theorem getStatus_precedence_witness:
  "status_text (getStatus 2000 (open_poll\<lparr>end_time := Some 1000\<rparr>)) = ''Ended''
   \<and> status_text (getStatus 1000 (open_poll\<lparr>end_time := Some 1000\<rparr>)) = ''Active''
   \<and> status_text (getStatus 500 (open_poll\<lparr>end_time := Some 1000\<rparr>)) = ''Active''
   \<and> status_text (getStatus 2000 (open_poll\<lparr>end_time := None\<rparr>)) = ''Active''
   \<and> status_text (getStatus 2000 (closed_poll\<lparr>end_time := Some 1000\<rparr>)) = ''Closed''
   \<and> status_text (getStatus 500 (closed_poll\<lparr>end_time := Some 1000\<rparr>)) = ''Closed''"
  using getStatus_precedence [of 2000 "open_poll\<lparr>end_time := Some 1000\<rparr>"]
    getStatus_precedence [of 1000 "open_poll\<lparr>end_time := Some 1000\<rparr>"]
    getStatus_precedence [of 500 "open_poll\<lparr>end_time := Some 1000\<rparr>"]
    getStatus_precedence [of 2000 "open_poll\<lparr>end_time := None\<rparr>"]
    getStatus_precedence [of 2000 "closed_poll\<lparr>end_time := Some 1000\<rparr>"]
    getStatus_precedence [of 500 "closed_poll\<lparr>end_time := Some 1000\<rparr>"]
  by (simp add: open_poll_def closed_poll_def empty_data_def)

subsection \<open>Helpers on the guarded exchange\<close>

lemma exchange_success:
  "net req = Responded st (Inr d) \<Longrightarrow> ok st \<Longrightarrow> exchange net req failure = Inr d"
  by (simp add: exchange_def)

lemma exchange_refused:
  "net req = Responded st (Inr d) \<Longrightarrow> \<not> ok st
     \<Longrightarrow> exchange net req failure = Inl (Error_message (failure st d))"
  by (simp add: exchange_def)

lemma exchange_rejected:
  "net req = Rejected m \<Longrightarrow> exchange net req failure = Inl m"
  by (simp add: exchange_def)

lemma clearMessages_keeps:
  "view (clearMessages s) = view s"
  "selectedOption_tab (clearMessages s) = selectedOption_tab s"
  "pollData_tab (clearMessages s) = None"
  "voterResults (clearMessages s) = None"
  by (simp_all add: clearMessages_def)

subsection \<open>The tab-based application\<close>

text \<open>
  C10. A change of view in the tab-based application resets the message and clears
  \<open>creatorInfo\<close>, \<open>creatorResults\<close>, \<open>voterResults\<close> and \<open>pollData\<close>, and
  sets the view; the selected option is left as it was, by the change of view and by a
  poll access that follows it, and by every other handler of the component, whatever the
  network answers.
\<close>

theorem view_change_keeps_selection:
  "message_tab (handleSetView newView s) = no_message
   \<and> creatorInfo (handleSetView newView s) = None
   \<and> creatorResults (handleSetView newView s) = None
   \<and> voterResults (handleSetView newView s) = None
   \<and> pollData_tab (handleSetView newView s) = None
   \<and> view (handleSetView newView s) = newView
   \<and> selectedOption_tab (handleSetView newView s) = selectedOption_tab s
   \<and> selectedOption_tab (fst (handleAccessPoll net (handleSetView newView s)))
       = selectedOption_tab s
   \<and> selectedOption_tab (fst (handleAccessPoll net s)) = selectedOption_tab s
   \<and> selectedOption_tab (fst (handleVote_tab net s)) = selectedOption_tab s
   \<and> selectedOption_tab (fst (handleCreatePoll_tab net s)) = selectedOption_tab s
   \<and> selectedOption_tab (fst (handleManageAction net action s)) = selectedOption_tab s"
proof -
  have access: "selectedOption_tab (fst (handleAccessPoll net t)) = selectedOption_tab t" for t
    by (simp add: handleAccessPoll_def clearMessages_def Let_def split: sum.splits)
  have vote: "selectedOption_tab (fst (handleVote_tab net s)) = selectedOption_tab s"
    by (simp add: handleVote_tab_def clearMessages_def Let_def split: sum.splits)
  have create: "selectedOption_tab (fst (handleCreatePoll_tab net s)) = selectedOption_tab s"
    by (simp add: handleCreatePoll_tab_def clearMessages_def Let_def split: sum.splits)
  have manage: "selectedOption_tab (fst (handleManageAction net action s)) = selectedOption_tab s"
    by (simp add: handleManageAction_def clearMessages_def Let_def split: sum.splits)
  show ?thesis
    by (simp add: access vote create manage) (simp add: handleSetView_def clearMessages_def)
qed

text \<open>
  C4. When the server answers a vote with success, the poll data is cleared, so the
  voting form is no longer shown, and the message is the \<open>message\<close> of the answer,
  unchanged and not flagged as an error. The handler of the session-based application
  has no access to the page; the handler of the tab-based application leaves the view as
  it is.
\<close>

theorem vote_success_clears_poll:
  assumes "net (vote_request s) = Responded st (Inr d)" and "ok st"
      and "net' (vote_request_tab t) = Responded st' (Inr d')" and "ok st'"
      and "selectedOption_tab t \<noteq> []"
  shows "pollData (fst (handleVote net s)) = None
       \<and> \<not> voting_form_shown (fst (handleVote net s))
       \<and> message_voter (fst (handleVote net s)) = \<lparr>text' = message d, isError = False\<rparr>
       \<and> pollData_tab (fst (handleVote_tab net' t)) = None
       \<and> \<not> voting_form_shown_tab (fst (handleVote_tab net' t))
       \<and> message_tab (fst (handleVote_tab net' t)) = \<lparr>text' = message d', isError = False\<rparr>
       \<and> view (fst (handleVote_tab net' t)) = view t"
  using assms
  by (simp add: handleVote_def handleVote_tab_def exchange_success Let_def
        voting_form_shown_def voting_form_shown_tab_def clearMessages_def)

theorem vote_success_clears_poll_witness:
  "voting_form_shown voter_voting
   \<and> pollData voter_voting = Some open_poll
   \<and> pollData (fst (handleVote accepting_network voter_voting)) = None
   \<and> \<not> voting_form_shown (fst (handleVote accepting_network voter_voting))
   \<and> message_voter (fst (handleVote accepting_network voter_voting))
     = \<lparr>text' = Some ''Vote cast successfully!'', isError = False\<rparr>
   \<and> voting_form_shown_tab tab_voting
   \<and> pollData_tab tab_voting = Some open_poll
   \<and> pollData_tab (fst (handleVote_tab accepting_network tab_voting)) = None
   \<and> \<not> voting_form_shown_tab (fst (handleVote_tab accepting_network tab_voting))
   \<and> message_tab (fst (handleVote_tab accepting_network tab_voting))
     = \<lparr>text' = Some ''Vote cast successfully!'', isError = False\<rparr>
   \<and> view (fst (handleVote_tab accepting_network tab_voting)) = ''voter''"
proof -
  have before: "voting_form_shown voter_voting \<and> pollData voter_voting = Some open_poll
      \<and> voting_form_shown_tab tab_voting \<and> pollData_tab tab_voting = Some open_poll
      \<and> view tab_voting = ''voter''"
    by (simp add: voting_form_shown_def voter_voting_def voter_start_def open_poll_def
          empty_data_def voting_form_shown_tab_def tab_voting_def tab_start_def)
  have answer: "accepting_network req
      = Responded 200 (Inr (empty_data\<lparr>message := Some ''Vote cast successfully!'',
                                          poll_id := Some ''p1''\<rparr>))" for req
    by (simp add: accepting_network_def)
  have fine: "ok 200"
    by (simp add: ok_def)
  have chosen: "selectedOption_tab tab_voting \<noteq> []"
    by (simp add: tab_voting_def tab_start_def)
  show ?thesis
    using vote_success_clears_poll [OF answer fine answer fine chosen] before
    by simp
qed

text \<open>
  C2, as the code has it. In the tab-based application, once the status request is
  answered with success: an active poll becomes the poll data, the voting form is shown
  and the status request is the only request; for a poll that is not active exactly one
  further request, for the results, is sent and the voting form is not shown; when that
  request is answered with success the results display is rendered from its answer
  (one row for each entry of its results), and when it fails (the network, a body that is not JSON, a refusal) nothing of the results
  is rendered and the failure is the message, flagged as an error. In the session-based
  application the status request is the only request whatever the answer says; the
  voting form is shown exactly for an active poll, and the notice that the poll is not
  open for any other.
\<close>

theorem poll_access_flow:
  assumes "net (status_request_tab t) = Responded st (Inr d)" and "ok st"
      and "view t = ''voter''"
      and "net' (status_request s) = Responded st' (Inr d')" and "ok st'"
  shows "(is_active d \<longrightarrow>
            snd (handleAccessPoll net t) = [status_request_tab t]
          \<and> pollData_tab (fst (handleAccessPoll net t)) = Some d
          \<and> voting_form_shown_tab (fst (handleAccessPoll net t)))
       \<and> (\<not> is_active d \<longrightarrow>
            snd (handleAccessPoll net t) = [status_request_tab t, results_request_tab t]
          \<and> \<not> voting_form_shown_tab (fst (handleAccessPoll net t))
          \<and> (\<forall>st2 resultsData. net (results_request_tab t) = Responded st2 (Inr resultsData)
                \<and> ok st2
                \<longrightarrow> results_shown_tab (fst (handleAccessPoll net t))
                      = Some (ResultsDisplay resultsData)
                  \<and> (\<forall>entries. results resultsData = Some entries \<longrightarrow>
                        results_shown_tab (fst (handleAccessPoll net t))
                          = Some (Done (map (\<lambda>(option, votes).
                                              (option, votes,
                                               percentage votes (total_votes resultsData)))
                                          entries))))
          \<and> (\<forall>st2 resultsData. net (results_request_tab t) = Responded st2 (Inr resultsData)
                \<and> \<not> ok st2
                \<longrightarrow> results_shown_tab (fst (handleAccessPoll net t)) = None
                  \<and> message_tab (fst (handleAccessPoll net t))
                      = \<lparr>text' = Some (if truthy (error resultsData) then the (error resultsData)
                                        else ''Could not fetch results.''),
                         isError = True\<rparr>)
          \<and> (\<forall>st2 m. net (results_request_tab t) = Rejected m
                \<or> net (results_request_tab t) = Responded st2 (Inl m)
                \<longrightarrow> results_shown_tab (fst (handleAccessPoll net t)) = None
                  \<and> message_tab (fst (handleAccessPoll net t))
                      = \<lparr>text' = Some m, isError = True\<rparr>))
       \<and> snd (handleFetchPoll net' s) = [status_request s]
       \<and> voting_form_shown (fst (handleFetchPoll net' s)) = is_active d'
       \<and> inactive_notice_shown (fst (handleFetchPoll net' s)) = (\<not> is_active d')"
proof -
  let ?failure = "\<lambda>(st::nat) d. js_or (error d) (Some ''Could not fetch results.'')"
  have first: "exchange net (status_request_tab t)
                 (\<lambda>st d. js_or (error d) (Some ''Could not fetch poll status.'')) = Inr d"
    using assms(1,2) by (rule exchange_success)
  have active: "is_active d \<Longrightarrow>
      handleAccessPoll net t = ((clearMessages t)\<lparr>pollData_tab := Some d\<rparr>, [status_request_tab t])"
    by (simp add: handleAccessPoll_def first Let_def)
  have sent: "\<not> is_active d \<Longrightarrow>
      snd (handleAccessPoll net t) = [status_request_tab t, results_request_tab t]"
    by (simp add: handleAccessPoll_def first Let_def split: sum.splits)
  have hidden: "\<not> is_active d \<Longrightarrow> pollData_tab (fst (handleAccessPoll net t)) = None"
    by (simp add: handleAccessPoll_def first Let_def clearMessages_keeps split: sum.splits)
  have succeeded: "results_shown_tab (fst (handleAccessPoll net t)) = Some (ResultsDisplay r)"
    if "\<not> is_active d" and "exchange net (results_request_tab t) ?failure = Inr r" for r
    using that assms(3)
    by (simp add: handleAccessPoll_def first Let_def results_shown_tab_def clearMessages_keeps)
  have failed: "results_shown_tab (fst (handleAccessPoll net t)) = None
      \<and> message_tab (fst (handleAccessPoll net t)) = \<lparr>text' = Some m, isError = True\<rparr>"
    if "\<not> is_active d" and "exchange net (results_request_tab t) ?failure = Inl m" for m
    using that
    by (simp add: handleAccessPoll_def first Let_def results_shown_tab_def clearMessages_keeps
          error_message_def)
  have shown: "results_shown_tab (fst (handleAccessPoll net t)) = Some (ResultsDisplay r)
      \<and> (\<forall>entries. results r = Some entries \<longrightarrow>
            results_shown_tab (fst (handleAccessPoll net t))
              = Some (Done (map (\<lambda>(option, votes).
                                  (option, votes, percentage votes (total_votes r)))
                              entries)))"
    if "\<not> is_active d" and "net (results_request_tab t) = Responded st2 (Inr r)" and "ok st2"
    for st2 r
  proof -
    have "exchange net (results_request_tab t) ?failure = Inr r"
      using that(2,3) by (simp add: exchange_def)
    with that(1) have "results_shown_tab (fst (handleAccessPoll net t))
        = Some (ResultsDisplay r)"
      by (rule succeeded)
    then show ?thesis by (simp add: ResultsDisplay_def)
  qed
  have refused: "results_shown_tab (fst (handleAccessPoll net t)) = None
      \<and> message_tab (fst (handleAccessPoll net t))
          = \<lparr>text' = Some (if truthy (error r) then the (error r) else ''Could not fetch results.''),
             isError = True\<rparr>"
    if "\<not> is_active d" and "net (results_request_tab t) = Responded st2 (Inr r)" and "\<not> ok st2"
    for st2 r
  proof -
    have "Error_message (js_or (error r) (Some ''Could not fetch results.''))
        = (if truthy (error r) then the (error r) else ''Could not fetch results.'')"
      by (auto simp: js_or_def truthy_def Error_message_def split: option.splits)
    moreover have "exchange net (results_request_tab t) ?failure
        = Inl (Error_message (js_or (error r) (Some ''Could not fetch results.'')))"
      using that(2,3) by (simp add: exchange_def)
    ultimately show ?thesis
      using failed [OF that(1)] by simp
  qed
  have lost: "results_shown_tab (fst (handleAccessPoll net t)) = None
      \<and> message_tab (fst (handleAccessPoll net t)) = \<lparr>text' = Some m, isError = True\<rparr>"
    if "\<not> is_active d"
      and "net (results_request_tab t) = Rejected m
           \<or> net (results_request_tab t) = Responded st2 (Inl m)"
    for st2 m
  proof -
    have "exchange net (results_request_tab t) ?failure = Inl m"
      using that(2) by (auto simp: exchange_def)
    with that(1) show ?thesis by (rule failed)
  qed
  have second: "exchange net' (status_request s) (\<lambda>st d. error d) = Inr d'"
    using assms(4,5) by (rule exchange_success)
  have fetch: "handleFetchPoll net' s
      = (s\<lparr>message_voter := no_message, pollData := Some d'\<rparr>, [status_request s])"
    by (simp add: handleFetchPoll_def second Let_def)
  have tab_active: "is_active d \<longrightarrow>
            snd (handleAccessPoll net t) = [status_request_tab t]
          \<and> pollData_tab (fst (handleAccessPoll net t)) = Some d
          \<and> voting_form_shown_tab (fst (handleAccessPoll net t))"
    using active assms(3) by (simp add: voting_form_shown_tab_def clearMessages_keeps)
  have session: "snd (handleFetchPoll net' s) = [status_request s]
       \<and> voting_form_shown (fst (handleFetchPoll net' s)) = is_active d'
       \<and> inactive_notice_shown (fst (handleFetchPoll net' s)) = (\<not> is_active d')"
    by (simp add: fetch voting_form_shown_def inactive_notice_shown_def)
  have hidden': "\<not> is_active d \<Longrightarrow> \<not> voting_form_shown_tab (fst (handleAccessPoll net t))"
    using hidden by (simp add: voting_form_shown_tab_def)
  show ?thesis
    using tab_active session sent hidden' shown refused lost by blast
qed

theorem poll_access_flow_witness:
  "snd (handleAccessPoll closed_with_results_network tab_start)
     = [status_request_tab tab_start, results_request_tab tab_start]
   \<and> \<not> voting_form_shown_tab (fst (handleAccessPoll closed_with_results_network tab_start))
   \<and> results_shown_tab (fst (handleAccessPoll closed_with_results_network tab_start))
     = Some (Done [(''A'', 1, ''50.0''), (''B'', 1, ''50.0'')])
   \<and> results_shown_tab (fst (handleAccessPoll results_refused_network tab_start)) = None
   \<and> message_tab (fst (handleAccessPoll results_refused_network tab_start))
     = \<lparr>text' = Some ''Not allowed'', isError = True\<rparr>
   \<and> snd (handleFetchPoll closed_poll_network voter_start) = [status_request voter_start]
   \<and> \<not> voting_form_shown (fst (handleFetchPoll closed_poll_network voter_start))
   \<and> inactive_notice_shown (fst (handleFetchPoll closed_poll_network voter_start))"
proof -
  have inactive: "\<not> is_active closed_poll"
    by (simp add: closed_poll_def empty_data_def)
  have fine: "ok 200" and refusal: "\<not> ok 403"
    by (simp_all add: ok_def)
  have voter: "view tab_start = ''voter''"
    by (simp add: tab_start_def)
  have status: "closed_with_results_network (status_request_tab tab_start)
                  = Responded 200 (Inr closed_poll)"
               "results_refused_network (status_request_tab tab_start)
                  = Responded 200 (Inr closed_poll)"
    by (simp_all add: closed_with_results_network_def results_refused_network_def
          status_request_tab_def get_request_def)
  have results: "closed_with_results_network (results_request_tab tab_start)
                   = Responded 200 (Inr even_split)"
                "results_refused_network (results_request_tab tab_start)
                   = Responded 403 (Inr (empty_data\<lparr>error := Some ''Not allowed''\<rparr>))"
    by (simp_all add: closed_with_results_network_def results_refused_network_def
          results_request_tab_def post_json_def)
  have answer: "closed_poll_network req = Responded 200 (Inr closed_poll)" for req
    by (simp add: closed_poll_network_def)
  have half: "percentage 1 2 = ''50.0''"
    by code_simp
  then have rows: "ResultsDisplay even_split = Done [(''A'', 1, ''50.0''), (''B'', 1, ''50.0'')]"
    by (simp add: ResultsDisplay_def even_split_def empty_data_def)
  have refused_error: "truthy (error (empty_data\<lparr>error := Some ''Not allowed''\<rparr>))"
    by (simp add: truthy_def)
  show ?thesis
    using poll_access_flow [where net = closed_with_results_network and t = tab_start
        and st = 200 and d = closed_poll and net' = closed_poll_network and s = voter_start
        and st' = 200 and d' = closed_poll]
      poll_access_flow [where net = results_refused_network and t = tab_start
        and st = 200 and d = closed_poll and net' = closed_poll_network and s = voter_start
        and st' = 200 and d' = closed_poll]
      status answer voter inactive results fine refusal rows refused_error
    by simp
qed

text \<open>
  C2 as stated fails: in the session-based application the access to a closed poll sends
  the status request and nothing else, so there is no follow-up request for results;
  and in the tab-based application, when the follow-up request is refused, the results
  are not shown and the refusal is the message.
\<close>

theorem poll_access_counterexample:
  "\<not> is_active closed_poll
   \<and> snd (handleFetchPoll closed_poll_network voter_start)
       = [\<lparr>verb = ''GET'', url = ''http://127.0.0.1:5000/poll_status/p1'',
           content_type = None, parts = []\<rparr>]
   \<and> length (snd (handleAccessPoll results_refused_network tab_start)) = 2
   \<and> results_shown_tab (fst (handleAccessPoll results_refused_network tab_start)) = None
   \<and> message_tab (fst (handleAccessPoll results_refused_network tab_start))
       = \<lparr>text' = Some ''Not allowed'', isError = True\<rparr>"
  by (simp add: closed_poll_def empty_data_def handleFetchPoll_def closed_poll_network_def
        voter_start_def status_request_def get_request_def API_URL_def exchange_def ok_def
        handleAccessPoll_def results_refused_network_def tab_start_def status_request_tab_def
        results_request_tab_def post_json_def Let_def clearMessages_def results_shown_tab_def
        js_or_def truthy_def Error_message_def error_message_def)

text \<open>
  C6, as the code has it. For a refusal (a status outside 200..299 with a JSON object
  as body): \<open>handleManageAction\<close> shows the \<open>error\<close> key when it is a non-empty
  string, else the \<open>message\<close> key when it is a non-empty string, else
  \<open>Failed to <action> poll.\<close>; \<open>handleSubmit\<close> shows the \<open>error\<close> key when
  it is a non-empty string and else \<open>HTTP error! status: <status>\<close>, and never reads
  the \<open>message\<close> key. Both flag the message as an error.
\<close>

theorem refusal_message_priority:
  assumes "net (snd (handleManageAction net action t) ! 0) = Responded st (Inr d)"
      and "\<not> ok st"
      and "net' (submit_request isSignup a) = Responded st' (Inr d')" and "\<not> ok st'"
  shows "message_tab (fst (handleManageAction net action t))
           = error_message
               (if truthy (error d) then the (error d)
                else if truthy (message d) then the (message d)
                else ''Failed to '' @ action @ '' poll.'')
       \<and> message_auth (fst (fst (handleSubmit stringify net' isSignup (a, s))))
           = error_message
               (if truthy (error d') then the (error d')
                else ''HTTP error! status: '' @ show_nat st')"
proof -
  let ?req = "post_json (if action = ''end'' then ''/end_poll'' else ''/results'')
                [(''poll_id'', managePollId t), (''creator_id'', creatorId t)]"
  have req: "snd (handleManageAction net action t) ! 0 = ?req"
    by (simp add: handleManageAction_def Let_def split: sum.splits)
  have "exchange net ?req (manage_failure action)
          = Inl (Error_message (manage_failure action st d))"
    using assms(1,2) unfolding req by (rule exchange_refused)
  then have manage: "message_tab (fst (handleManageAction net action t))
      = error_message (Error_message (manage_failure action st d))"
    by (simp add: handleManageAction_def Let_def)
  have "exchange net' (submit_request isSignup a) submit_failure
          = Inl (Error_message (submit_failure st' d'))"
    using assms(3,4) by (rule exchange_refused)
  then have submit: "message_auth (fst (fst (handleSubmit stringify net' isSignup (a, s))))
      = error_message (Error_message (submit_failure st' d'))"
    by (simp add: handleSubmit_def Let_def)
  show ?thesis
    unfolding manage submit
    by (auto simp: manage_failure_def submit_failure_def js_or_def truthy_def Error_message_def
          split: option.splits)
qed

theorem refusal_message_priority_witness:
  "message_tab (fst (handleManageAction empty_error_network ''end'' tab_start))
     = error_message ''Poll not found''
   \<and> message_auth (fst (fst (handleSubmit stringify_plain message_only_network True
                               (auth_start, initial_app None))))
     = error_message ''HTTP error! status: 409''"
proof -
  have "show_nat 409 = ''409''"
    by (simp add: show_nat.simps digit_char_def)
  then show ?thesis
    using refusal_message_priority [where net = empty_error_network and action = "''end''"
        and t = tab_start and st = 400
        and d = "empty_data\<lparr>error := Some [], message := Some ''Poll not found''\<rparr>"
        and net' = message_only_network and isSignup = True and a = auth_start and st' = 409
        and d' = "empty_data\<lparr>message := Some ''Username taken''\<rparr>"
        and stringify = stringify_plain and s = "initial_app None"]
    by (simp add: empty_error_network_def message_only_network_def ok_def truthy_def
          empty_data_def)
qed

text \<open>
  C6 as stated fails: a refusal of the signup that carries a \<open>message\<close> and no
  \<open>error\<close> is shown as the generic text, not as the server's message; and an
  \<open>error\<close> key that is present but empty is passed over.
\<close>

theorem refusal_message_counterexample:
  "text' (message_auth (fst (fst (handleSubmit stringify_plain message_only_network True
                                    (auth_start, initial_app None)))))
     = Some ''HTTP error! status: 409''
   \<and> text' (message_tab (fst (handleManageAction empty_error_network ''end'' tab_start)))
     = Some ''Poll not found''"
proof -
  have "show_nat 409 = ''409''"
    by (simp add: show_nat.simps digit_char_def)
  then show ?thesis
    by (simp add: handleSubmit_def submit_request_def auth_start_def message_only_network_def
          exchange_def ok_def submit_failure_def js_or_def truthy_def empty_data_def
          Error_message_def error_message_def handleManageAction_def empty_error_network_def
          manage_failure_def Let_def)
qed




subsection \<open>Start-up and unguarded requests\<close>

text \<open>
  What the start-up effect does with a slot it can use or that is empty: with no stored
  text, or an empty one, the session stays empty and the page stays \<open>home\<close>; with
  the text of a session object, the session is that object and the page is the
  dashboard of its role.
\<close>

lemma restore_absent:
  "restore parse (initial_app None) = Done (initial_app None)"
  "restore parse (initial_app (Some [])) = Done (initial_app (Some []))"
  by (simp_all add: restore_def initial_app_def)

lemma restore_session:
  "stored \<noteq> [] \<Longrightarrow> parse stored = Inr (JObject u) \<Longrightarrow>
     restore parse (initial_app (Some stored))
       = Done ((initial_app (Some stored))
                 \<lparr>user := Some u,
                  page := (if role u = ''creator'' then ''creatorDashboard''
                           else ''voterDashboard'')\<rparr>)"
  by (simp add: restore_def initial_app_def dashboard_of_def)

text \<open>The text \<open>null\<close> parses, and has no \<open>role\<close> to read.\<close>

lemma restore_null:
  "stored \<noteq> [] \<Longrightarrow> parse stored = Inr JNull \<Longrightarrow>
     restore parse (initial_app (Some stored))
       = Uncaught (cannot_read ''null'' ''role'') (initial_app (Some stored))"
  by (simp add: restore_def initial_app_def)

text \<open>
  A text that is not JSON can come from the application itself: a login answered with
  success and no \<open>user\<close> key stores the text \<open>undefined\<close>.
\<close>

lemma login_without_user_stores_undefined:
  "storage (fst (onLoginSuccess stringify None s)) = Some ''undefined''"
  by (simp add: onLoginSuccess_def)

text \<open>
  C7, the malformed slot. A stored text that \<open>JSON.parse\<close> does not accept makes the
  start-up effect throw: the \<open>SyntaxError\<close> leaves the effect, where the
  specification wants an empty session on the home page and no failure.
\<close>

theorem restore_malformed_throws:
  assumes "stored \<noteq> []" and "parse stored = Inl syntax_error"
  shows "restore parse (initial_app (Some stored))
           = Uncaught syntax_error (initial_app (Some stored))
       \<and> restore parse (initial_app (Some stored)) \<noteq> Done (initial_app (Some stored))"
  using assms by (simp add: restore_def initial_app_def)

theorem restore_malformed_throws_witness:
  "restore sample_parse (initial_app (Some ''{bad''))
     = Uncaught ''SyntaxError: Unexpected token in JSON'' (initial_app (Some ''{bad''))"
  using restore_malformed_throws [of "''{bad''" sample_parse
      "''SyntaxError: Unexpected token in JSON''"]
  by (simp add: sample_parse_def)

text \<open>
  C8, the two unguarded requests. With the network down, the rejection of \<open>fetch\<close>
  leaves \<open>fetchPolls\<close> and \<open>fetchAnalytics\<close> uncaught, the latter with the loading
  flag still set; nothing is rendered for either. When the server refuses with an error
  object, \<open>fetchPolls\<close> stores the object and the dashboard lists no poll and shows no
  error, and the analytics dashboard throws while rendering. The poll search of the
  voter dashboard, on the same dead network, catches the rejection and shows it.
\<close>

theorem unguarded_fetch_uncaught:
  "fetchPolls offline alice \<lparr>polls = PollArray [], copiedPollId = None\<rparr>
     = Uncaught ''Failed to fetch''
         (\<lparr>polls = PollArray [], copiedPollId = None\<rparr>, [polls_request alice])
   \<and> fetchAnalytics offline (Some ''p1'') \<lparr>analytics = None, isLoading = True\<rparr>
     = Uncaught ''Failed to fetch''
         (\<lparr>analytics = None, isLoading = True\<rparr>, [analytics_request (Some ''p1'')])
   \<and> polls_listed (fst (done_by (fetchPolls not_found_polls alice
                                    \<lparr>polls = PollArray [], copiedPollId = None\<rparr>))) = []
   \<and> render_analytics (fst (done_by (fetchAnalytics not_found_network (Some ''p1'')
                                        \<lparr>analytics = None, isLoading = True\<rparr>)))
     = Uncaught ''TypeError: Cannot convert undefined or null to object'' Blank
   \<and> message_voter (fst (handleFetchPoll offline voter_start))
     = \<lparr>text' = Some ''Failed to fetch'', isError = True\<rparr>"
  by (simp add: fetchPolls_def fetchAnalytics_def offline_def Let_def not_found_polls_def
        not_found_network_def polls_listed_def render_analytics_def empty_data_def
        handleFetchPoll_def exchange_def error_message_def)

subsection \<open>The percentage of the results display\<close>

lemma round_even_close: "\<bar>of_int (round_even z) - z\<bar> \<le> 1 / 2"
proof -
  have "of_int \<lfloor>z\<rfloor> \<le> z" and "z < of_int \<lfloor>z\<rfloor> + 1"
    by linarith+
  then show ?thesis
    unfolding round_even_def Let_def by (auto simp: abs_le_iff)
qed

lemma exponent_lower:
  assumes "0 < x"
  shows "2 powi exponent x \<le> x"
proof -
  obtain p q where pq: "quotient_of x = (p, q)"
    by (cases "quotient_of x")
  have q: "0 < q" using pq by (rule quotient_of_denom_pos)
  have x: "x = of_int p / of_int q" using pq by (rule quotient_of_div)
  have p: "0 < p"
    using assms q unfolding x by (simp add: zero_less_divide_iff)
  let ?k = "bitlen p - bitlen q"
  have "2 powi (?k - 1) \<le> x"
  proof -
    have bp: "2 ^ nat (bitlen p - 1) \<le> p" using bitlen_bounds [OF p] by simp
    have bq: "q < 2 ^ nat (bitlen q)" using bitlen_bounds [OF q] by simp
    have p1: "1 \<le> bitlen p" using p by (simp add: bitlen_alt_def)
    have q0: "0 \<le> bitlen q" by (rule bitlen_nonneg)
    have a: "(2::rat) powi (bitlen p - 1) \<le> of_int p"
    proof -
      have "(2::rat) powi (bitlen p - 1) = 2 ^ nat (bitlen p - 1)"
        using p1 by (simp add: power_int_def)
      also have "\<dots> = of_int (2 ^ nat (bitlen p - 1))" by simp
      also have "\<dots> \<le> of_int p" using bp by (simp only: of_int_le_iff)
      finally show ?thesis .
    qed
    have b: "of_int q \<le> (2::rat) powi bitlen q"
    proof -
      have "of_int q \<le> (of_int (2 ^ nat (bitlen q)) :: rat)"
        using bq by (simp only: of_int_le_iff)
      also have "\<dots> = 2 powi bitlen q"
        using q0 by (simp add: power_int_def)
      finally show ?thesis .
    qed
    have "(2::rat) powi (?k - 1) = 2 powi (bitlen p - 1) / 2 powi bitlen q"
      using power_int_diff [of "2::rat" "bitlen p - 1" "bitlen q"] by (simp add: algebra_simps)
    also have "\<dots> \<le> of_int p / of_int q"
      using a b q p by (intro frac_le) auto
    finally show ?thesis by (simp add: x)
  qed
  then show ?thesis
    by (simp add: exponent_def pq Let_def)
qed

lemma exponent_upper:
  assumes "0 < x"
  shows "x < 2 powi (exponent x + 1)"
proof -
  obtain p q where pq: "quotient_of x = (p, q)"
    by (cases "quotient_of x")
  have q: "0 < q" using pq by (rule quotient_of_denom_pos)
  have x: "x = of_int p / of_int q" using pq by (rule quotient_of_div)
  have p: "0 < p"
    using assms q unfolding x by (simp add: zero_less_divide_iff)
  let ?k = "bitlen p - bitlen q"
  have "x < 2 powi (?k + 1)"
  proof -
    have bp: "p < 2 ^ nat (bitlen p)" using bitlen_bounds [OF p] by simp
    have bq: "2 ^ nat (bitlen q - 1) \<le> q" using bitlen_bounds [OF q] by simp
    have q1: "1 \<le> bitlen q" using q by (simp add: bitlen_alt_def)
    have p0: "0 \<le> bitlen p" by (rule bitlen_nonneg)
    have a: "of_int p < (2::rat) powi bitlen p"
    proof -
      have "of_int p < (of_int (2 ^ nat (bitlen p)) :: rat)"
        using bp by (simp only: of_int_less_iff)
      also have "\<dots> = 2 powi bitlen p"
        using p0 by (simp add: power_int_def)
      finally show ?thesis .
    qed
    have b: "(2::rat) powi (bitlen q - 1) \<le> of_int q"
    proof -
      have "(2::rat) powi (bitlen q - 1) = of_int (2 ^ nat (bitlen q - 1))"
        using q1 by (simp add: power_int_def)
      also have "\<dots> \<le> of_int q" using bq by (simp only: of_int_le_iff)
      finally show ?thesis .
    qed
    have "x = of_int p / of_int q" by (rule x)
    also have "\<dots> < 2 powi bitlen p / 2 powi (bitlen q - 1)"
      using a b q p by (intro frac_less) auto
    also have "\<dots> = 2 powi (?k + 1)"
      using power_int_diff [of "2::rat" "bitlen p" "bitlen q - 1"] by (simp add: algebra_simps)
    finally show ?thesis .
  qed
  then show ?thesis
    by (auto simp: exponent_def pq Let_def not_le)
qed


lemma exponent_ge:
  assumes "0 < x" and "2 powi k \<le> x"
  shows "k \<le> exponent x"
proof (rule ccontr)
  assume "\<not> k \<le> exponent x"
  then have "exponent x + 1 \<le> k" by simp
  then have "(2::rat) powi (exponent x + 1) \<le> 2 powi k"
    by (intro power_int_increasing) auto
  with assms(2) exponent_upper [OF assms(1)] show False by simp
qed

lemma exponent_less:
  assumes "0 < x" and "x < 2 powi k"
  shows "exponent x < k"
proof (rule ccontr)
  assume "\<not> exponent x < k"
  then have "k \<le> exponent x" by simp
  then have "(2::rat) powi k \<le> 2 powi exponent x"
    by (intro power_int_increasing) auto
  with assms(2) exponent_lower [OF assms(1)] show False by simp
qed

lemma double_normal:
  assumes low: "2 powi (- 1022) \<le> x" and high: "x < 2 powi 1023"
  obtains r where "double x = Finite r" and "\<bar>r - x\<bar> \<le> x / 2 ^ 53"
proof -
  have x: "0 < x"
    using low by (rule less_le_trans [rotated]) simp
  define e where "e = exponent x - 52"
  define s :: rat where "s = 2 powi e"
  define r where "r = of_int (round_even (x / s)) * s"
  have s: "0 < s" by (simp add: s_def)
  have normal: "max (exponent \<bar>x\<bar>) (- 1022) = exponent x"
    using exponent_ge [OF x low] x by simp
  have "s * 2 ^ 52 = 2 powi (e + 52)"
    unfolding s_def by (simp add: power_int_add)
  also have "\<dots> \<le> x"
    using exponent_lower [OF x] by (simp add: e_def)
  finally have lowest: "s * 2 ^ 52 \<le> x" .
  have "r - x = (of_int (round_even (x / s)) - x / s) * s"
    using s by (simp add: r_def field_simps)
  then have "\<bar>r - x\<bar> = \<bar>of_int (round_even (x / s)) - x / s\<bar> * s"
    using s by (simp add: abs_mult)
  also have "\<dots> \<le> 1 / 2 * s"
    using round_even_close [of "x / s"] s by (intro mult_right_mono) auto
  also have "\<dots> \<le> x / 2 ^ 53"
    using lowest by simp
  finally have close: "\<bar>r - x\<bar> \<le> x / 2 ^ 53" .
  have "x / 2 ^ 53 < x" using x by (simp add: field_simps)
  with close have r: "0 < r" and "r < 2 * x" by linarith+
  then have "r < 2 powi 1024"
    using high power_int_add [of "2::rat" 1023 1] by simp
  with r have "exponent r < 1024" by (rule exponent_less)
  then have "\<not> 1024 \<le> exponent \<bar>r\<bar>"
    using r by simp
  then have "double x = Finite r"
    using x unfolding double_def normal by (simp add: Let_def e_def s_def r_def)
  then show ?thesis using close by (rule that)
qed

lemma round_even_int: "round_even (of_int m) = m"
  by (simp add: round_even_def)

lemma double_of_nat:
  assumes "n < 2 ^ 53"
  shows "double (of_nat n) = Finite (of_nat n)"
proof (cases "n = 0")
  case True
  then show ?thesis by (simp add: double_def)
next
  case False
  define x :: rat where "x = of_nat n"
  have x: "0 < x" using False by (simp add: x_def)
  have "(2::rat) powi 0 \<le> x" using False by (simp add: x_def)
  with x have lo: "0 \<le> exponent x" by (rule exponent_ge)
  have "x < 2 ^ 53"
    using assms unfolding x_def by (metis of_nat_less_iff of_nat_numeral of_nat_power)
  then have "x < 2 powi 53" by simp
  with x have hi: "exponent x < 53" by (rule exponent_less)
  define j where "j = nat (52 - exponent x)"
  have e: "exponent x - 52 = - int j" using hi by (simp add: j_def)
  have scale: "(2::rat) powi (exponent x - 52) = 1 / 2 ^ j"
    unfolding e by (simp add: power_int_minus field_simps)
  have "x / (1 / 2 ^ j) = of_int (int n * 2 ^ j)"
    by (simp add: x_def)
  then have rounded: "round_even (x / (1 / 2 ^ j)) = int n * 2 ^ j"
    by (simp only: round_even_int)
  have r: "of_int (round_even (x / 2 powi (exponent x - 52))) * 2 powi (exponent x - 52) = x"
    unfolding scale rounded by (simp add: x_def)
  have "x < 2 powi 1024"
  proof -
    have "(2::rat) powi 53 \<le> 2 powi 1024" by (intro power_int_increasing) auto
    with \<open>x < 2 powi 53\<close> show ?thesis by simp
  qed
  with x have "exponent x < 1024" by (rule exponent_less)
  moreover have "max (exponent \<bar>x\<bar>) (- 1022) = exponent x" using lo x by simp
  ultimately have "double x = Finite x"
    using x unfolding double_def by (simp add: Let_def r)
  then show ?thesis by (simp add: x_def)
qed


lemma normal_range:
  fixes x :: rat
  assumes "1 / 2 ^ 54 \<le> x" and "x < 2 ^ 62"
  shows "2 powi (- 1022) \<le> x" and "x < 2 powi 1023"
proof -
  have "(2::rat) powi (- 1022) \<le> 2 powi (- 54)"
    by (intro power_int_increasing) auto
  also have "(2::rat) powi (- 54) = 1 / 2 ^ 54"
    by (simp add: power_int_minus field_simps)
  finally have "(2::rat) powi (- 1022) \<le> 1 / 2 ^ 54" .
  then show "2 powi (- 1022) \<le> x" using assms(1) by (rule order_trans)
  have "(2::rat) ^ 62 = 2 powi 62" by simp
  also have "(2::rat) powi 62 \<le> 2 powi 1023"
    by (intro power_int_increasing) auto
  finally have "(2::rat) ^ 62 \<le> 2 powi 1023" .
  with assms(2) show "x < 2 powi 1023" by (rule less_le_trans)
qed

lemma percent_number_close:
  assumes t: "0 < t" "t < 2 ^ 53" and v: "v < 2 ^ 53"
  obtains y where "percent_number v t = Finite y" and "0 \<le> y" and "y < 10 ^ 21"
    and "\<bar>y - 100 * of_nat v / of_nat t\<bar>
           \<le> (100 * of_nat v / of_nat t) * (2 / 2 ^ 53 + 1 / 2 ^ 106)"
proof (cases "v = 0")
  case True
  have "percent_number 0 t = Finite 0"
    using t by (simp add: percent_number_def number_of_nat_def double_of_nat)
      (simp add: double_def)
  with True show ?thesis by (intro that [of 0]) auto
next
  case False
  define x :: rat where "x = of_nat v / of_nat t"
  define u :: rat where "u = 1 / 2 ^ 53"
  have u: "0 < u" "u < 1 / 2" by (simp_all add: u_def)
  have tr: "0 < (of_nat t :: rat)" "(of_nat t :: rat) < 2 ^ 53"
    using t by (simp, metis of_nat_less_iff of_nat_numeral of_nat_power)
  have vr: "1 \<le> (of_nat v :: rat)" "(of_nat v :: rat) < 2 ^ 53"
    using False v by (simp, metis of_nat_less_iff of_nat_numeral of_nat_power)
  have x: "0 < x" using tr vr by (simp add: x_def)
  have xlow: "1 / 2 ^ 53 \<le> x"
  proof -
    have "1 / 2 ^ 53 \<le> 1 / (of_nat t :: rat)"
      using tr by (intro divide_left_mono) auto
    also have "\<dots> \<le> of_nat v / of_nat t"
      using tr vr by (intro divide_right_mono) auto
    finally show ?thesis by (simp add: x_def)
  qed
  have xhigh: "x < 2 ^ 53"
  proof -
    have "of_nat v / (of_nat t :: rat) \<le> of_nat v / 1"
      using tr vr t by (intro divide_left_mono) auto
    with vr show ?thesis by (simp add: x_def)
  qed
  have "1 / 2 ^ 54 \<le> x" using xlow by simp
  moreover have "x < 2 ^ 62" using xhigh by simp
  ultimately have "2 powi (- 1022) \<le> x" and "x < 2 powi 1023"
    by (rule normal_range)+
  then obtain d where d: "double x = Finite d" and dx: "\<bar>d - x\<bar> \<le> x / 2 ^ 53"
    by (rule double_normal)
  have dx': "\<bar>d - x\<bar> \<le> x * u" using dx by (simp add: u_def)
  have "x * u \<le> x / 2" using x u by (simp add: field_simps)
  with dx' have dlow: "x / 2 \<le> d" and dhigh: "d \<le> x + x * u" and dhigh': "d \<le> 2 * x"
    using x by linarith+
  have "1 / 2 ^ 54 \<le> d * 100" using dlow xlow by simp
  moreover have "d * 100 < 2 ^ 62" using dhigh' xhigh by simp
  ultimately have "2 powi (- 1022) \<le> d * 100" and "d * 100 < 2 powi 1023"
    by (rule normal_range)+
  then obtain y where y: "double (d * 100) = Finite y"
      and yd: "\<bar>y - d * 100\<bar> \<le> d * 100 / 2 ^ 53"
    by (rule double_normal)
  have yd': "\<bar>y - d * 100\<bar> \<le> d * 100 * u" using yd by (simp add: u_def)
  have dpos: "0 < d" using dlow x by simp
  have "d * 100 * u \<le> d * 100" using dpos u by simp
  with yd' have ynn: "0 \<le> y" and yhigh: "y \<le> 2 * (d * 100)" by linarith+
  have "y < 10 ^ 21" using yhigh dhigh' xhigh by simp
  have "d * 100 * u \<le> (x + x * u) * 100 * u"
    using dhigh u by (intro mult_right_mono) auto
  with yd' have yd'': "\<bar>y - d * 100\<bar> \<le> (x + x * u) * 100 * u" by linarith
  have "y - 100 * x = (y - d * 100) + 100 * (d - x)"
    by simp
  then have "\<bar>y - 100 * x\<bar> \<le> \<bar>y - d * 100\<bar> + \<bar>100 * (d - x)\<bar>"
    by (simp only: abs_triangle_ineq)
  also have "\<bar>100 * (d - x)\<bar> = 100 * \<bar>d - x\<bar>"
    by (simp only: abs_mult abs_numeral)
  finally have "\<bar>y - 100 * x\<bar> \<le> \<bar>y - d * 100\<bar> + 100 * \<bar>d - x\<bar>" .
  also have "\<dots> \<le> (x + x * u) * 100 * u + 100 * (x * u)"
    using yd'' dx' by (intro add_mono mult_left_mono) auto
  also have "\<dots> = (100 * x) * (2 * u + u * u)"
    by (simp add: algebra_simps)
  finally have "\<bar>y - 100 * x\<bar> \<le> (100 * x) * (2 * u + u * u)" .
  moreover have "2 * u + u * u = 2 / 2 ^ 53 + 1 / 2 ^ 106" by (simp add: u_def)
  ultimately have close: "\<bar>y - 100 * of_nat v / of_nat t\<bar>
           \<le> (100 * of_nat v / of_nat t) * (2 / 2 ^ 53 + 1 / 2 ^ 106)"
    by (simp add: x_def)
  have "percent_number v t = Finite y"
    using t v tr by (simp add: percent_number_def number_of_nat_def double_of_nat
        d [unfolded x_def] y)
  then show ?thesis using ynn \<open>y < 10 ^ 21\<close> close by (rule that)
qed

lemma tenths_nearest:
  assumes t: "0 < t" and v: "v < 2 ^ 41" and ynn: "0 \<le> y"
    and err: "\<bar>y - 100 * of_nat v / of_nat t\<bar>
           \<le> (100 * of_nat v / of_nat t) * (2 / 2 ^ 53 + 1 / 2 ^ 106)"
  shows "\<bar>of_nat (tenths y) - 1000 * of_nat v / of_nat t\<bar> \<le> (1 / 2 :: rat)"
proof -
  define n where "n = \<lfloor>10 * y + 1 / 2\<rfloor>"
  define V where "V = int v"
  define T where "T = int t"
  define eps :: rat where "eps = 2 / 2 ^ 53 + 1 / 2 ^ 106"
  have T: "0 < T" using t by (simp add: T_def)
  have Tr: "0 < (of_int T :: rat)" using T by simp
  have V: "0 \<le> V" "V < 2 ^ 41" using v by (simp_all add: V_def)
  have nnn: "0 \<le> n" using ynn by (simp add: n_def)
  have tn: "of_nat (tenths y) = (of_int n :: rat)"
    using nnn by (simp add: tenths_def n_def)
  have n1: "of_int n \<le> 10 * y + 1 / 2" and n2: "10 * y + 1 / 2 < of_int n + 1"
    unfolding n_def by linarith+
  have err: "\<bar>y - 100 * of_int V / of_int T\<bar> \<le> (100 * of_int V / of_int T) * eps"
    using err by (simp add: V_def T_def eps_def)
  have small: "2000 * of_int V * eps < (1::rat)"
  proof -
    have "of_int V \<le> (2 ^ 41 :: rat)"
      using V(2) by (metis of_int_le_iff of_int_numeral of_int_power less_imp_le)
    then have "2000 * of_int V * eps \<le> 2000 * 2 ^ 41 * eps"
      by (intro mult_right_mono mult_left_mono) (auto simp: eps_def)
    also have "\<dots> < 1" by (simp add: eps_def)
    finally show ?thesis .
  qed
  have gap: "1 / (2 * of_int T) \<le> \<bar>of_int k / (2 * of_int T) :: rat\<bar>" if "k \<noteq> 0" for k :: int
  proof -
    have "1 \<le> \<bar>k\<bar>" using that by simp
    then have "(1::rat) \<le> \<bar>of_int k\<bar>" by (metis of_int_1 of_int_abs of_int_le_iff)
    then show ?thesis using Tr by (simp add: field_simps)
  qed
  have bound: "(1000 * of_int V / of_int T) * eps < 1 / (2 * of_int T :: rat)"
    using small Tr by (simp add: field_simps)
  have "of_int n - 1000 * of_int V / of_int T \<le> (1 / 2 :: rat)"
  proof (rule ccontr)
    assume "\<not> ?thesis"
    then have far: "(1 / 2 :: rat) < of_int n - 1000 * of_int V / of_int T" by simp
    define k where "k = (2 * n - 1) * T - 2000 * V"
    have keq: "of_int k / (2 * of_int T) = (of_int n - 1 / 2 :: rat) - 1000 * of_int V / of_int T"
      using Tr by (simp add: k_def field_simps)
    have kpos: "(0::rat) < of_int k / (2 * of_int T)" using far keq by simp
    then have "k \<noteq> 0" by auto
    from gap [OF this] kpos have "1 / (2 * of_int T) \<le> (of_int k / (2 * of_int T) :: rat)" by simp
    also have "\<dots> \<le> 10 * y - 1000 * of_int V / of_int T" using n1 keq by simp
    also have "\<dots> \<le> 10 * ((100 * of_int V / of_int T) * eps)" using err by (simp add: abs_le_iff)
    finally show False using bound by simp
  qed
  moreover have "1000 * of_int V / of_int T - of_int n \<le> (1 / 2 :: rat)"
  proof (rule ccontr)
    assume "\<not> ?thesis"
    then have far: "(1 / 2 :: rat) < 1000 * of_int V / of_int T - of_int n" by simp
    define k where "k = 2000 * V - (2 * n + 1) * T"
    have keq: "of_int k / (2 * of_int T) = (1000 * of_int V / of_int T :: rat) - (of_int n + 1 / 2)"
      using Tr by (simp add: k_def field_simps)
    have kpos: "(0::rat) < of_int k / (2 * of_int T)" using far keq by simp
    then have "k \<noteq> 0" by auto
    from gap [OF this] kpos have "1 / (2 * of_int T) \<le> (of_int k / (2 * of_int T) :: rat)" by simp
    also have "\<dots> \<le> 1000 * of_int V / of_int T - 10 * y" using n2 keq by simp
    also have "\<dots> \<le> 10 * ((100 * of_int V / of_int T) * eps)" using err by (simp add: abs_le_iff)
    finally show False using bound by simp
  qed
  ultimately have "\<bar>of_int n - 1000 * of_int V / of_int T\<bar> \<le> (1 / 2 :: rat)"
    by (intro abs_leI) linarith+
  then show ?thesis
    by (simp add: tn V_def T_def)
qed

lemma rows_of_entries:
  "map (\<lambda>(option, votes, shown). (option, votes))
     (map (\<lambda>(option, votes). (option, votes, f votes)) entries) = entries"
  by (induction entries) auto

text \<open>
  C1, as the code has it. The results display has one row for each entry of the results,
  in their order, with the option, its votes and the percentage shown for it. With no
  votes in total every percentage is \<open>0\<close>. With votes in total, and counts in the
  range where doubles do not disturb the last digit (fewer than \<open>2^41\<close> votes for the
  option, a total below \<open>2^53\<close>), the percentage shown is a one-decimal value nearest
  to \<open>votes / total_votes * 100\<close>: it differs from the exact quotient by at most half a
  tenth.
\<close>

theorem percentage_rounded:
  "(results d = Some entries \<longrightarrow>
      (\<exists>rows. ResultsDisplay d = Done rows
         \<and> map (\<lambda>(option, votes, shown). (option, votes)) rows = entries
         \<and> (\<forall>(option, votes, shown) \<in> set rows.
               (total_votes d = 0 \<longrightarrow> shown = ''0'')
             \<and> (0 < total_votes d \<and> total_votes d < 2 ^ 53 \<and> votes < 2 ^ 41 \<longrightarrow>
                  (\<exists>n. shown = fixed1 n
                     \<and> \<bar>of_nat n / 10 - of_nat votes / of_nat (total_votes d) * 100\<bar>
                         \<le> (1 / 20 :: rat))))))
   \<and> (totalVotes = 0 \<longrightarrow> percentage votes totalVotes = ''0'')
   \<and> (0 < totalVotes \<and> totalVotes < 2 ^ 53 \<and> votes < 2 ^ 41 \<longrightarrow>
        (\<exists>n. percentage votes totalVotes = fixed1 n
           \<and> \<bar>of_nat n / 10 - of_nat votes / of_nat totalVotes * 100\<bar> \<le> (1 / 20 :: rat)))"
proof -
  have none: "percentage v 0 = ''0''" for v
    by (simp add: percentage_def number_of_nat_def double_def)
  have some: "\<exists>n. percentage v t = fixed1 n
           \<and> \<bar>of_nat n / 10 - of_nat v / of_nat t * 100\<bar> \<le> (1 / 20 :: rat)"
    if t: "0 < t" "t < 2 ^ 53" and v: "v < 2 ^ 41" for v t
  proof -
    have "(2::nat) ^ 41 \<le> 2 ^ 53" by simp
    with v have "v < 2 ^ 53" by (rule less_le_trans)
    with t obtain y where y: "percent_number v t = Finite y"
        and ynn: "0 \<le> y" and small: "y < 10 ^ 21"
        and err: "\<bar>y - 100 * of_nat v / of_nat t\<bar>
           \<le> (100 * of_nat v / of_nat t) * (2 / 2 ^ 53 + 1 / 2 ^ 106)"
      by (rule percent_number_close)
    have "positive (number_of_nat t)"
      using t by (simp add: number_of_nat_def double_of_nat)
    then have shown: "percentage v t = fixed1 (tenths y)"
      using small by (simp add: percentage_def y)
    have "\<bar>of_nat (tenths y) - 1000 * of_nat v / of_nat t\<bar> \<le> (1 / 2 :: rat)"
      using t(1) v ynn err by (rule tenths_nearest)
    then have "\<bar>of_nat (tenths y) / 10 - of_nat v / of_nat t * 100\<bar> \<le> (1 / 20 :: rat)"
      by (simp add: abs_le_iff field_simps)
    with shown show ?thesis by blast
  qed
  have rows: "\<exists>rows. ResultsDisplay d = Done rows
         \<and> map (\<lambda>(option, votes, shown). (option, votes)) rows = entries
         \<and> (\<forall>(option, votes, shown) \<in> set rows.
               (total_votes d = 0 \<longrightarrow> shown = ''0'')
             \<and> (0 < total_votes d \<and> total_votes d < 2 ^ 53 \<and> votes < 2 ^ 41 \<longrightarrow>
                  (\<exists>n. shown = fixed1 n
                     \<and> \<bar>of_nat n / 10 - of_nat votes / of_nat (total_votes d) * 100\<bar>
                         \<le> (1 / 20 :: rat))))"
    if "results d = Some entries"
  proof (intro exI conjI)
    show "ResultsDisplay d
        = Done (map (\<lambda>(option, votes). (option, votes, percentage votes (total_votes d))) entries)"
      using that by (simp add: ResultsDisplay_def)
    show "map (\<lambda>(option, votes, shown). (option, votes))
            (map (\<lambda>(option, votes). (option, votes, percentage votes (total_votes d))) entries)
          = entries"
      by (rule rows_of_entries)
    show "\<forall>(option, votes, shown)
            \<in> set (map (\<lambda>(option, votes). (option, votes, percentage votes (total_votes d)))
                       entries).
               (total_votes d = 0 \<longrightarrow> shown = ''0'')
             \<and> (0 < total_votes d \<and> total_votes d < 2 ^ 53 \<and> votes < 2 ^ 41 \<longrightarrow>
                  (\<exists>n. shown = fixed1 n
                     \<and> \<bar>of_nat n / 10 - of_nat votes / of_nat (total_votes d) * 100\<bar>
                         \<le> (1 / 20 :: rat)))"
      using none some by auto
  qed
  show ?thesis
  proof (intro conjI impI)
    assume "results d = Some entries"
    then show "\<exists>rows. ResultsDisplay d = Done rows
         \<and> map (\<lambda>(option, votes, shown). (option, votes)) rows = entries
         \<and> (\<forall>(option, votes, shown) \<in> set rows.
               (total_votes d = 0 \<longrightarrow> shown = ''0'')
             \<and> (0 < total_votes d \<and> total_votes d < 2 ^ 53 \<and> votes < 2 ^ 41 \<longrightarrow>
                  (\<exists>n. shown = fixed1 n
                     \<and> \<bar>of_nat n / 10 - of_nat votes / of_nat (total_votes d) * 100\<bar>
                         \<le> (1 / 20 :: rat))))"
      by (rule rows)
  next
    assume "totalVotes = 0"
    then show "percentage votes totalVotes = ''0''"
      by (simp add: none)
  next
    assume "0 < totalVotes \<and> totalVotes < 2 ^ 53 \<and> votes < 2 ^ 41"
    then show "\<exists>n. percentage votes totalVotes = fixed1 n
           \<and> \<bar>of_nat n / 10 - of_nat votes / of_nat totalVotes * 100\<bar> \<le> (1 / 20 :: rat)"
      by (intro some) simp_all
  qed
qed

theorem percentage_rounded_witness:
  "ResultsDisplay even_split = Done [(''A'', 1, ''50.0''), (''B'', 1, ''50.0'')]
   \<and> percentage 1 0 = ''0''
   \<and> percentage 1 2 = ''50.0''
   \<and> (\<exists>n. percentage 1 2 = fixed1 n
         \<and> \<bar>of_nat n / 10 - of_nat 1 / of_nat 2 * 100\<bar> \<le> (1 / 20 :: rat))"
proof -
  have entries: "results even_split = Some [(''A'', 1), (''B'', 1)]"
    and total: "total_votes even_split = 2"
    by (simp_all add: even_split_def empty_data_def)
  have range: "(0::nat) < 2 \<and> (2::nat) < 2 ^ 53 \<and> (1::nat) < 2 ^ 41"
    by simp
  have half: "percentage 1 2 = ''50.0''"
    by code_simp
  from percentage_rounded [of even_split "[(''A'', 1), (''B'', 1)]", THEN conjunct1,
      THEN mp, OF entries]
  obtain rows where rows: "ResultsDisplay even_split = Done rows"
    by (elim exE conjE)
  have none: "percentage 1 0 = ''0''"
    using percentage_rounded [of d entries 0 1, THEN conjunct2, THEN conjunct1]
    by (rule mp) (rule refl)
  have near: "\<exists>n. percentage 1 2 = fixed1 n
         \<and> \<bar>of_nat n / 10 - of_nat 1 / of_nat 2 * 100\<bar> \<le> (1 / 20 :: rat)"
    using percentage_rounded [of d entries 2 1, THEN conjunct2, THEN conjunct2] range
    by (rule mp)
  have "ResultsDisplay even_split
      = Done (map (\<lambda>(option, votes). (option, votes, percentage votes 2))
                [(''A'', 1), (''B'', 1)])"
    using rows by (simp add: ResultsDisplay_def entries total)
  then have "ResultsDisplay even_split = Done [(''A'', 1, ''50.0''), (''B'', 1, ''50.0'')]"
    by (simp only: list.map prod.case half)
  then show ?thesis
    using none half near by (intro conjI)
qed

text \<open>
  C1 as stated fails for counts no poll reaches: with 103968949085449 votes of
  548648807838781 the exact percentage lies just above 18.95, whose nearest one-decimal
  value is 19.0, and the two roundings of the double arithmetic bring it just below, so
  that 18.9 is printed.
\<close>

theorem percentage_counterexample:
  "percentage 103968949085449 548648807838781 = ''18.9''
   \<and> (1 / 20 :: rat) < \<bar>189 / 10 - 103968949085449 / 548648807838781 * 100\<bar>"
proof -
  have votes: "number_of_nat 103968949085449 = Finite 103968949085449"
    unfolding number_of_nat_def using double_of_nat [of 103968949085449] by simp
  have total: "number_of_nat 548648807838781 = Finite 548648807838781"
    unfolding number_of_nat_def using double_of_nat [of 548648807838781] by simp
  have quotient: "double (103968949085449 / 548648807838781)
      = Finite (853432129386709 / 4503599627370496)"
    by code_simp
  have product: "double (853432129386709 / 4503599627370496 * 100)
      = Finite (5333950808666931 / 281474976710656)"
    by code_simp
  have n: "tenths (5333950808666931 / 281474976710656) = 189"
    by code_simp
  have digits: "fixed1 189 = ''18.9''"
    by code_simp
  have nonzero: "(548648807838781::rat) \<noteq> 0"
    by simp
  have "percent_number 103968949085449 548648807838781
      = Finite (5333950808666931 / 281474976710656)"
    by (simp only: percent_number_def votes total divide_number.simps times_number.simps
          nonzero if_False quotient product)
  moreover have "positive (number_of_nat 548648807838781)"
    by (simp add: total)
  moreover have "\<not> (10 ^ 21 \<le> (5333950808666931 / 281474976710656 :: rat))"
    by simp
  ultimately have "percentage 103968949085449 548648807838781
      = fixed1 (tenths (5333950808666931 / 281474976710656))"
    by (simp only: percentage_def if_True if_False toFixed1.simps)
  then have "percentage 103968949085449 548648807838781 = ''18.9''"
    by (simp only: n digits)
  then show ?thesis by simp
qed

text \<open>
  The bound on the votes is close to where the last digit can first be disturbed: with
  3439224001330 votes (about \<open>2^41.6\<close>) of 5336266875609 the exact percentage lies
  just below 64.45 and 64.5 is printed.
\<close>

lemma percentage_beyond_bound:
  "percentage 3439224001330 5336266875609 = ''64.5''
   \<and> (1 / 20 :: rat) < \<bar>645 / 10 - 3439224001330 / 5336266875609 * 100\<bar>"
proof -
  have votes: "number_of_nat 3439224001330 = Finite 3439224001330"
    unfolding number_of_nat_def using double_of_nat [of 3439224001330] by simp
  have total: "number_of_nat 5336266875609 = Finite 5336266875609"
    unfolding number_of_nat_def using double_of_nat [of 5336266875609] by simp
  have quotient: "double (3439224001330 / 5336266875609) = Finite (5805139919680569 / 9007199254740992)"
    by code_simp
  have product: "double (5805139919680569 / 9007199254740992 * 100) = Finite (4535265562250445 / 70368744177664)"
    by code_simp
  have n: "tenths (4535265562250445 / 70368744177664) = 645"
    by code_simp
  have digits: "fixed1 645 = ''64.5''"
    by code_simp
  have nonzero: "(5336266875609::rat) \<noteq> 0"
    by simp
  have "percent_number 3439224001330 5336266875609 = Finite (4535265562250445 / 70368744177664)"
    by (simp only: percent_number_def votes total divide_number.simps times_number.simps
          nonzero if_False quotient product)
  moreover have "positive (number_of_nat 5336266875609)"
    by (simp add: total)
  moreover have "\<not> (10 ^ 21 \<le> (4535265562250445 / 70368744177664 :: rat))"
    by simp
  ultimately have "percentage 3439224001330 5336266875609 = fixed1 (tenths (4535265562250445 / 70368744177664))"
    by (simp only: percentage_def if_True if_False toFixed1.simps)
  then have "percentage 3439224001330 5336266875609 = ''64.5''"
    by (simp only: n digits)
  then show ?thesis by simp
qed

text \<open>
  Where the exact percentage lies halfway between two one-decimal values, the double
  decides: 23 votes of 80 are 28.75 percent, and 28.7 is printed.
\<close>

lemma percentage_tie: "percentage 23 80 = ''28.7''"
  by code_simp

text \<open>
  Outside the range of the theorem the model follows the program too. A total of
  \<open>2^53 + 1\<close> arrives as \<open>2^53\<close>, so that \<open>2^49\<close> votes of it are 6.25
  percent for the program, printed as 6.3; and \<open>2^64\<close> votes of a total of one are
  printed in exponent notation.
\<close>

lemma number_of_nat_rounds: "number_of_nat 9007199254740993 = Finite 9007199254740992"
proof -
  have "double 9007199254740993 = Finite 9007199254740992"
    by code_simp
  then show ?thesis
    by (simp only: number_of_nat_def of_nat_numeral)
qed

lemma percentage_of_rounded_total: "percentage 562949953421312 9007199254740993 = ''6.3''"
proof -
  have votes: "number_of_nat 562949953421312 = Finite 562949953421312"
    unfolding number_of_nat_def using double_of_nat [of 562949953421312] by simp
  have shown: "toFixed1 (times_number (divide_number (Finite 562949953421312)
                                         (Finite 9007199254740992)) (Finite 100)) = ''6.3''"
    by code_simp
  have "positive (Finite 9007199254740992)"
    by simp
  then show ?thesis
    by (simp only: percentage_def percent_number_def votes number_of_nat_rounds shown if_True)
qed

lemma percentage_exponent_notation: "percentage 18446744073709551616 1 = ''1.8446744073709552e+21''"
proof -
  have votes: "double 18446744073709551616 = Finite 18446744073709551616"
    by code_simp
  have total: "double 1 = Finite 1"
    by code_simp
  have shown: "toFixed1 (times_number (divide_number (Finite 18446744073709551616) (Finite 1))
                           (Finite 100)) = ''1.8446744073709552e+21''"
    by code_simp
  have "positive (Finite 1)"
    by simp
  then show ?thesis
    by (simp only: percentage_def percent_number_def number_of_nat_def of_nat_numeral of_nat_1
          votes total shown if_True)
qed


end
